theory Spec2Isabelle
  imports Complex_Main
begin

section \<open>Tank Combat feature helpers (function.js)\<close>

text \<open>
  The module patches an external game (Tank and Bullet classes, maze, canvas) and adds
  AI-controlled enemies. JavaScript numbers are modelled as \<^typ>\<open>real\<close>: every numeric
  input is taken to be finite and rounding is not modelled. Objects are references into
  an explicit store, because the controller keys its per-enemy state by object identity.
  Collaborators that the AI controller receives from its caller are parameters; one that
  throws is not modelled (the source has no handler: the exception would propagate).
  A method of a patched class returns an error or a result.
\<close>

subsection \<open>The store\<close>

type_synonym ref = nat

text \<open>The fields of a Tank that this module reads or writes.\<close>

record tank =
  tank_x :: real
  tank_y :: real
  tank_angle :: real
  tank_turnSpeed :: real
  tank_radius :: real

text \<open>The fields of a Bullet; \<open>_bounces\<close> is absent until the patched update sets it.\<close>

record bullet =
  bul_x :: real
  bul_y :: real
  bul_vx :: real
  bul_vy :: real
  bul_life :: real
  bul_alive :: bool
  bul_bounces :: "nat option"

record wall =
  wall_cell :: "real \<times> real \<times> real \<times> real"
  wall_deadly :: bool

text \<open>
  The world: tanks, bullets and maze arrays by reference, and everything else the
  external game owns (navigation structure, sound, effects) in the opaque part.
\<close>

record 'x world =
  tanks :: "ref \<Rightarrow> tank"
  bullets :: "ref \<Rightarrow> bullet"
  mazes :: "ref \<Rightarrow> wall list"
  ext :: 'x

datatype error = Error string | TypeError

text \<open>\<open>function clamp(v, a, b) { return Math.max(a, Math.min(b, v)); }\<close>\<close>

definition clamp :: "real \<Rightarrow> real \<Rightarrow> real \<Rightarrow> real" where
  "clamp v a b = max a (min b v)"

subsection \<open>The AI controller (spawnMoreEnemies)\<close>

record point =
  pt_x :: real
  pt_y :: real

record canvas =
  clientWidth :: real
  clientHeight :: real

text \<open>
  The environment bridged from main.js (the destructured third parameter), followed by
  what the controller reaches through the enemy object and the platform: the Tank methods
  \<open>updateMovement\<close>, \<open>canFire\<close>, \<open>fire\<close>, and \<open>Math.random\<close>, whose n-th result for
  the controller is \<open>random env n\<close>.
\<close>

record 'x env =
  canvas :: canvas
  player :: ref
  angleTo :: "real \<Rightarrow> real \<Rightarrow> real \<Rightarrow> real \<Rightarrow> real"
  angDiff :: "real \<Rightarrow> real \<Rightarrow> real"
  hasLineOfSight :: "'x world \<Rightarrow> real \<Rightarrow> real \<Rightarrow> real \<Rightarrow> real \<Rightarrow> bool"
  ensureNav :: "real \<Rightarrow> 'x world \<Rightarrow> 'x world"
  navWaypoint :: "'x world \<Rightarrow> real \<Rightarrow> real \<Rightarrow> point option"
  distanceToWall :: "'x world \<Rightarrow> real \<Rightarrow> real \<Rightarrow> real \<Rightarrow> real \<Rightarrow> real"
  canOccupy :: "('x world \<Rightarrow> real \<Rightarrow> real \<Rightarrow> real \<Rightarrow> bool) option"
  updateMovement :: "ref \<Rightarrow> real \<Rightarrow> bool \<Rightarrow> bool \<Rightarrow> bool \<Rightarrow> bool \<Rightarrow> 'x world \<Rightarrow> 'x world"
  canFire :: "ref \<Rightarrow> 'x world \<Rightarrow> bool"
  fire :: "ref \<Rightarrow> 'x world \<Rightarrow> 'x world"
  random :: "nat \<Rightarrow> real"

text \<open>The per-enemy record created by \<open>getState\<close>.\<close>

record agent_state =
  hasSight :: bool
  holdFire :: real
  unstick :: real
  unstickDir :: int
  progress :: real
  lastX :: real
  lastY :: real

text \<open>The calls the controller issues, in order (a log kept beside the world).\<close>

datatype call =
  EnsureNav real
  | UpdateMovement ref real bool bool bool bool
  | Fire ref

text \<open>
  What the closure owns and what it acts on: the \<open>state\<close> Map keyed by enemy identity,
  the world, the number of \<open>Math.random\<close> draws made, and the call log.
\<close>

record 'x sys =
  state :: "ref \<rightharpoonup> agent_state"
  world :: "'x world"
  draws :: nat
  calls :: "call list"

definition getState :: "ref \<Rightarrow> 'x sys \<Rightarrow> agent_state \<times> 'x sys" where
  "getState e s =
     (case state s e of
        Some st \<Rightarrow> (st, s)
      | None \<Rightarrow>
          (let st = \<lparr>hasSight = False, holdFire = 0, unstick = 0, unstickDir = 0, progress = 0,
                     lastX = tank_x (tanks (world s) e), lastY = tank_y (tanks (world s) e)\<rparr>
           in (st, s\<lparr>state := (state s)(e \<mapsto> st)\<rparr>)))"

text \<open>Lines 206-208: bearing to the player, facing error, line of sight.\<close>

definition targetAng :: "'x env \<Rightarrow> 'x world \<Rightarrow> ref \<Rightarrow> real" where
  "targetAng env w enemy =
     angleTo env (tank_x (tanks w enemy)) (tank_y (tanks w enemy))
                 (tank_x (tanks w (player env))) (tank_y (tanks w (player env)))"

definition facingError :: "'x env \<Rightarrow> 'x world \<Rightarrow> ref \<Rightarrow> real" where
  "facingError env w enemy = angDiff env (tank_angle (tanks w enemy)) (targetAng env w enemy)"

definition sightOf :: "'x env \<Rightarrow> 'x world \<Rightarrow> ref \<Rightarrow> bool" where
  "sightOf env w enemy =
     hasLineOfSight env w (tank_x (tanks w enemy)) (tank_y (tanks w enemy))
                          (tank_x (tanks w (player env))) (tank_y (tanks w (player env)))"

text \<open>Lines 209-210: the edge trigger; \<open>r\<close> is the value \<open>Math.random()\<close> would return.\<close>

definition acquireSight :: "bool \<Rightarrow> real \<Rightarrow> agent_state \<Rightarrow> agent_state" where
  "acquireSight sight r st =
     (let st1 = (if sight \<and> \<not> hasSight st then st\<lparr>holdFire := 0.9 + r * 0.7\<rparr> else st)
      in st1\<lparr>hasSight := sight\<rparr>)"

text \<open>Line 211.\<close>

definition decayHoldFire :: "real \<Rightarrow> agent_state \<Rightarrow> agent_state" where
  "decayHoldFire dt st = (if holdFire st > 0 then st\<lparr>holdFire := holdFire st - dt\<rparr> else st)"

text \<open>Lines 213-215: the three feelers.\<close>

definition leftFeel :: "'x env \<Rightarrow> 'x world \<Rightarrow> ref \<Rightarrow> real" where
  "leftFeel env w enemy =
     distanceToWall env w (tank_x (tanks w enemy)) (tank_y (tanks w enemy))
                          (tank_angle (tanks w enemy) - 0.8) 180"

definition rightFeel :: "'x env \<Rightarrow> 'x world \<Rightarrow> ref \<Rightarrow> real" where
  "rightFeel env w enemy =
     distanceToWall env w (tank_x (tanks w enemy)) (tank_y (tanks w enemy))
                          (tank_angle (tanks w enemy) + 0.8) 180"

definition fwdFeel :: "'x env \<Rightarrow> 'x world \<Rightarrow> ref \<Rightarrow> real" where
  "fwdFeel env w enemy =
     distanceToWall env w (tank_x (tanks w enemy)) (tank_y (tanks w enemy))
                          (tank_angle (tanks w enemy)) 160"

text \<open>
  Lines 217-222: the steering target. Without sight \<open>ensureNav(dt)\<close> runs first and the
  waypoint is read from the world it leaves. Returns the angle, the world and the calls
  made.
\<close>

definition steerTarget ::
  "'x env \<Rightarrow> real \<Rightarrow> ref \<Rightarrow> bool \<Rightarrow> real \<Rightarrow> 'x world \<Rightarrow> real \<times> 'x world \<times> call list" where
  "steerTarget env dt enemy sight tAng w =
     (if \<not> sight then
        (let w1 = ensureNav env dt w
         in case navWaypoint env w1 (tank_x (tanks w1 enemy)) (tank_y (tanks w1 enemy)) of
              Some wp \<Rightarrow>
                (angleTo env (tank_x (tanks w1 enemy)) (tank_y (tanks w1 enemy)) (pt_x wp) (pt_y wp),
                 w1, [EnsureNav dt])
            | None \<Rightarrow> (tAng, w1, [EnsureNav dt]))
      else (tAng, w, []))"

text \<open>Lines 223-226: \<open>d\<close> is \<open>angDiff(enemy.angle, steerTargetAng)\<close>.\<close>

definition steerBase :: "real \<Rightarrow> real" where
  "steerBase d = clamp d (- 0.8) 0.8"

definition avoid :: "real \<Rightarrow> real \<Rightarrow> real" where
  "avoid lf rf = clamp ((rf - lf) * 0.005) (- 0.7) 0.7"

definition panic :: "real \<Rightarrow> real \<Rightarrow> real \<Rightarrow> real" where
  "panic lf rf ff = (if ff < 40 then (if lf < rf then 0.7 else - 0.7) else 0)"

definition steerValue :: "real \<Rightarrow> real \<Rightarrow> real \<Rightarrow> real \<Rightarrow> real" where
  "steerValue d lf rf ff = steerBase d + (avoid lf rf + panic lf rf ff)"

text \<open>Line 233: \<open>Math.hypot\<close> of the displacement since the last tick.\<close>

definition hypot :: "real \<Rightarrow> real \<Rightarrow> real" where
  "hypot a b = sqrt (a\<^sup>2 + b\<^sup>2)"

text \<open>Lines 234-239: stuck detection.\<close>

definition stuckDetection ::
  "real \<Rightarrow> bool \<Rightarrow> real \<Rightarrow> real \<Rightarrow> real \<Rightarrow> real \<Rightarrow> agent_state \<Rightarrow> agent_state" where
  "stuckDetection dt goForward moved lf rf ff st =
     (let st1 = (if goForward \<and> moved < 8 * dt \<and> ff < 50
                 then st\<lparr>progress := progress st + dt\<rparr> else st\<lparr>progress := 0\<rparr>)
      in if progress st1 > 0.6
         then st1\<lparr>unstick := 0.5, unstickDir := (if lf < rf then 1 else - 1), progress := 0\<rparr>
         else st1)"

text \<open>Lines 240-245: the maneuver override; returns the state, the world and the call.\<close>

definition maneuver ::
  "'x env \<Rightarrow> real \<Rightarrow> ref \<Rightarrow> bool \<Rightarrow> bool \<Rightarrow> bool \<Rightarrow> bool \<Rightarrow> real \<Rightarrow> agent_state \<Rightarrow> 'x world
     \<Rightarrow> agent_state \<times> 'x world \<times> call" where
  "maneuver env dt enemy turnLeft turnRight goForward goBackward ff st w =
     (if unstick st > 0 then
        (st\<lparr>unstick := unstick st - dt\<rparr>,
         updateMovement env enemy dt (unstickDir st < 0) (unstickDir st > 0) (ff > 30) (ff \<le> 20) w,
         UpdateMovement enemy dt (unstickDir st < 0) (unstickDir st > 0) (ff > 30) (ff \<le> 20))
      else
        (st,
         updateMovement env enemy dt turnLeft turnRight goForward goBackward w,
         UpdateMovement enemy dt turnLeft turnRight goForward goBackward))"

text \<open>
  The local variables of \<open>updateOne\<close> that outlive the statement computing them;
  \<open>l_st\<close> is the enemy's record, which the Map holds by reference.
\<close>

record locals =
  l_st :: agent_state
  l_targetAng :: real
  l_diff :: real
  l_sight :: bool
  l_leftFeel :: real
  l_rightFeel :: real
  l_fwdFeel :: real
  l_steerTargetAng :: real
  l_steer :: real
  l_turnLeft :: bool
  l_turnRight :: bool
  l_goForward :: bool
  l_goBackward :: bool
  l_moved :: real

text \<open>
  Lines 205-239 of \<open>updateOne\<close>: perception, hold-fire timer, feelers, steering and
  stuck detection, up to the test \<open>st.unstick > 0\<close>.
\<close>

definition senseOne :: "'x env \<Rightarrow> real \<Rightarrow> ref \<Rightarrow> 'x sys \<Rightarrow> locals \<times> 'x sys" where
  "senseOne env dt enemy s0 =
     (let (st0, s) = getState enemy s0;
          w = world s;
          tAng = targetAng env w enemy;
          diff = facingError env w enemy;
          sight = sightOf env w enemy;
          n = (if sight \<and> \<not> hasSight st0 then Suc (draws s) else draws s);
          st1 = decayHoldFire dt (acquireSight sight (random env (draws s)) st0);
          lf = leftFeel env w enemy;
          rf = rightFeel env w enemy;
          ff = fwdFeel env w enemy;
          (steerTargetAng, w1, cs) = steerTarget env dt enemy sight tAng w;
          steer = steerValue (angDiff env (tank_angle (tanks w1 enemy)) steerTargetAng) lf rf ff;
          turnLeft = steer < - 0.06;
          turnRight = steer > 0.06;
          goForward = ff > 24;
          goBackward = False;
          moved = hypot (tank_x (tanks w1 enemy) - lastX st1) (tank_y (tanks w1 enemy) - lastY st1);
          st2 = stuckDetection dt goForward moved lf rf ff st1
      in (\<lparr>l_st = st2, l_targetAng = tAng, l_diff = diff, l_sight = sight,
           l_leftFeel = lf, l_rightFeel = rf, l_fwdFeel = ff,
           l_steerTargetAng = steerTargetAng, l_steer = steer,
           l_turnLeft = turnLeft, l_turnRight = turnRight,
           l_goForward = goForward, l_goBackward = goBackward, l_moved = moved\<rparr>,
          s\<lparr>state := (state s)(enemy \<mapsto> st2), world := w1, draws := n, calls := calls s @ cs\<rparr>))"

text \<open>Lines 240-246: the movement call and the position remembered for the next tick.\<close>

definition moveOne :: "'x env \<Rightarrow> real \<Rightarrow> ref \<Rightarrow> locals \<times> 'x sys \<Rightarrow> locals \<times> 'x sys" where
  "moveOne env dt enemy ls =
     (let (l, s) = ls;
          (st3, w2, c) = maneuver env dt enemy (l_turnLeft l) (l_turnRight l) (l_goForward l)
                           (l_goBackward l) (l_fwdFeel l) (l_st l) (world s);
          st4 = st3\<lparr>lastX := tank_x (tanks w2 enemy), lastY := tank_y (tanks w2 enemy)\<rparr>
      in (l\<lparr>l_st := st4\<rparr>,
          s\<lparr>state := (state s)(enemy \<mapsto> st4), world := w2, calls := calls s @ [c]\<rparr>))"

text \<open>Lines 248-250: the fire decision.\<close>

definition fireDecision :: "'x env \<Rightarrow> ref \<Rightarrow> locals \<times> 'x sys \<Rightarrow> 'x sys" where
  "fireDecision env enemy ls =
     (let (l, s) = ls
      in if l_sight l \<and> holdFire (l_st l) \<le> 0 \<and> canFire env enemy (world s) then
           (if \<bar>l_diff l\<bar> < 0.15
            then s\<lparr>world := fire env enemy (world s), calls := calls s @ [Fire enemy]\<rparr>
            else s)
         else s)"

definition updateOne :: "'x env \<Rightarrow> real \<Rightarrow> ref \<Rightarrow> 'x sys \<Rightarrow> 'x sys" where
  "updateOne env dt enemy s =
     fireDecision env enemy (moveOne env dt enemy (senseOne env dt enemy s))"

text \<open>\<open>for (const e of enemies) updateOne(dt, e);\<close>\<close>

fun updateAllAI :: "'x env \<Rightarrow> real \<Rightarrow> ref list \<Rightarrow> 'x sys \<Rightarrow> 'x sys" where
  "updateAllAI env dt [] s = s"
| "updateAllAI env dt (e # es) s = updateAllAI env dt es (updateOne env dt e s)"

subsection \<open>Spawning the enemies (lines 164-194)\<close>

text \<open>
  \<open>new TankClass(x, y, c)\<close>: allocates a tank in the world and returns its reference.
  The argument \<open>TankClass\<close> is \<open>None\<close> when the value passed is not a constructor, and
  \<open>new\<close> then throws a TypeError.
\<close>

type_synonym 'x constructor = "real \<Rightarrow> real \<Rightarrow> string option \<Rightarrow> 'x world \<Rightarrow> ref \<times> 'x world"

text \<open>The \<open>color\<close> parameter: an array of colors or a single one; omitted, the default list.\<close>

datatype color_arg = Colors "string list" | Color string

definition colorsOf :: "color_arg option \<Rightarrow> string list" where
  "colorsOf color =
     (case color of
        None \<Rightarrow> [''#f472b6'', ''#f59e0b'', ''#60a5fa'', ''#a78bfa'']
      | Some (Colors cs) \<Rightarrow> cs
      | Some (Color c) \<Rightarrow> [c])"

definition spawns :: "real \<Rightarrow> real \<Rightarrow> point list" where
  "spawns W H =
     [\<lparr>pt_x = 0.85 * W, pt_y = 0.15 * H\<rparr>,
      \<lparr>pt_x = 0.85 * W, pt_y = 0.85 * H\<rparr>,
      \<lparr>pt_x = 0.15 * W, pt_y = 0.15 * H\<rparr>,
      \<lparr>pt_x = 0.15 * W, pt_y = 0.85 * H\<rparr>,
      \<lparr>pt_x = 0.50 * W, pt_y = 0.15 * H\<rparr>,
      \<lparr>pt_x = 0.85 * W, pt_y = 0.50 * H\<rparr>,
      \<lparr>pt_x = 0.50 * W, pt_y = 0.85 * H\<rparr>,
      \<lparr>pt_x = 0.15 * W, pt_y = 0.50 * H\<rparr>]"

text \<open>
  The \<open>count\<close> parameter, a JavaScript number: a finite number, an infinity, or a value
  that does not resolve to a number (undefined, NaN). The loop test \<open>i < count\<close> is false
  for the latter and always true for \<open>Infinity\<close>.
\<close>

datatype count_arg = Num real | PosInfinity | NegInfinity | NotANumber

definition lessCount :: "nat \<Rightarrow> count_arg \<Rightarrow> bool" where
  "lessCount i count =
     (case count of
        Num c \<Rightarrow> real i < c
      | PosInfinity \<Rightarrow> True
      | NegInfinity \<Rightarrow> False
      | NotANumber \<Rightarrow> False)"


text \<open>
  Lines 186-188: \<open>while (!canOccupy(s.x, s.y, 20) && tries++ < spawns.length)
  s = spawns[si++ % spawns.length];\<close>
\<close>

function tryNext ::
  "('x world \<Rightarrow> real \<Rightarrow> real \<Rightarrow> real \<Rightarrow> bool) \<Rightarrow> 'x world \<Rightarrow> point list \<Rightarrow> point \<Rightarrow> nat \<Rightarrow> nat
     \<Rightarrow> point \<times> nat" where
  "tryNext occ w sp s si tries =
     (if \<not> occ w (pt_x s) (pt_y s) 20 \<and> tries < length sp
      then tryNext occ w sp (sp ! (si mod length sp)) (Suc si) (Suc tries)
      else (s, si))"
  by pat_completeness auto
termination
  by (relation "measure (\<lambda>(occ, w, sp, s, si, tries). length sp - tries)") auto

declare tryNext.simps [simp del]

text \<open>Lines 181-189: the color and the spawn point of enemy \<open>i\<close>, and the next \<open>si\<close>.\<close>

definition pickColor :: "string list \<Rightarrow> nat \<Rightarrow> string option" where
  "pickColor colors i = (if colors = [] then None else Some (colors ! (i mod length colors)))"

definition pickSpawn :: "'x env \<Rightarrow> 'x world \<Rightarrow> nat \<Rightarrow> point \<times> nat" where
  "pickSpawn env w si =
     (let sp = spawns (clientWidth (canvas env)) (clientHeight (canvas env));
          s = sp ! (si mod length sp)
      in case canOccupy env of
           Some occ \<Rightarrow> tryNext occ w sp s (Suc si) 0
         | None \<Rightarrow> (s, Suc si))"

text \<open>Lines 190-193: construct the tank, set its turn speed, face the arena centre.\<close>

definition newEnemy :: "'x env \<Rightarrow> 'x constructor \<Rightarrow> point \<Rightarrow> string option \<Rightarrow> 'x world \<Rightarrow> ref \<times> 'x world" where
  "newEnemy env new s c w =
     (let (t, w1) = new (pt_x s) (pt_y s) c w;
          w2 = w1\<lparr>tanks := (tanks w1)(t := (tanks w1 t)\<lparr>tank_turnSpeed := 1.8\<rparr>)\<rparr>;
          a = angleTo env (tank_x (tanks w2 t)) (tank_y (tanks w2 t))
                (clientWidth (canvas env) * 0.5) (clientHeight (canvas env) * 0.5)
      in (t, w2\<lparr>tanks := (tanks w2)(t := (tanks w2 t)\<lparr>tank_angle := a\<rparr>)\<rparr>))"

text \<open>
  The loop \<open>for (let i = 0; i < count; i++)\<close> of lines 180-194. It need not end
  (\<open>count = Infinity\<close>): not returning is the value \<open>None\<close>.
\<close>

partial_function (option) spawnLoop ::
  "'x env \<Rightarrow> 'x constructor option \<Rightarrow> string list \<Rightarrow> count_arg \<Rightarrow> nat \<Rightarrow> nat \<Rightarrow> ref list \<Rightarrow> 'x world
     \<Rightarrow> (error + ref list \<times> 'x world) option" where
  "spawnLoop env TankClass colors count i si enemies w =
     (if lessCount i count then
        (case TankClass of
           None \<Rightarrow> Some (Inl TypeError)
         | Some new \<Rightarrow>
             spawnLoop env TankClass colors count (Suc i) (snd (pickSpawn env w si))
               (enemies @ [fst (newEnemy env new (fst (pickSpawn env w si)) (pickColor colors i) w)])
               (snd (newEnemy env new (fst (pickSpawn env w si)) (pickColor colors i) w)))
      else Some (Inr (enemies, w)))"

text \<open>
  \<open>spawnMoreEnemies\<close> returns \<open>{ enemies, updateAllAI }\<close>: the enemies and the closure's
  initial system (an empty \<open>state\<close> Map), on which \<open>updateAllAI env dt enemies\<close> then
  runs each frame.
\<close>

definition spawnMoreEnemies ::
  "count_arg \<Rightarrow> 'x constructor option \<Rightarrow> 'x env \<Rightarrow> color_arg option \<Rightarrow> 'x world
     \<Rightarrow> (error + ref list \<times> 'x sys) option" where
  "spawnMoreEnemies count TankClass env color w =
     (case spawnLoop env TankClass (colorsOf color) count 0 0 [] w of
        None \<Rightarrow> None
      | Some (Inl err) \<Rightarrow> Some (Inl err)
      | Some (Inr (enemies, w')) \<Rightarrow>
          Some (Inr (enemies, \<lparr>state = Map.empty, world = w', draws = 0, calls = []\<rparr>)))"

subsection \<open>The patch installers\<close>

text \<open>
  A class is the object the installers mutate: the prototype methods they replace and the
  static guard properties they set. A prototype method or a guard property that is
  undefined is \<open>None\<close>. A method takes the receiver \<open>this\<close> and the world, and returns
  an error if it throws. An installer's class argument is \<open>None\<close> when the value passed
  is falsy or not a function.
\<close>

type_synonym 'x fire_method = "ref \<Rightarrow> 'x world \<Rightarrow> error + ref option \<times> 'x world"

type_synonym 'x move_method =
  "ref \<Rightarrow> real \<Rightarrow> bool \<Rightarrow> bool \<Rightarrow> bool \<Rightarrow> bool \<Rightarrow> 'x world \<Rightarrow> error + 'x world"

type_synonym 'x update_method = "ref \<Rightarrow> real \<Rightarrow> 'x world \<Rightarrow> error + 'x world"

record 'x tank_class =
  proto_fire :: "'x fire_method option"
  proto_updateMovement :: "'x move_method option"
  orig_fire_fastpatch :: "'x fire_method option"
  orig_update_move_deadlypatch :: "'x move_method option"

record 'x bullet_class =
  proto_update :: "'x update_method option"
  orig_update_bouncepatch :: "'x update_method option"

text \<open>
  Lines 18-25: the wrapper around \<open>fire\<close>. \<open>orig.apply\<close> throws a TypeError when the
  saved original is undefined. The original returns the new bullet (or nothing); the
  wrapper scales that bullet's velocity in place.
\<close>

definition fastFire :: "'x fire_method option \<Rightarrow> real \<Rightarrow> 'x fire_method" where
  "fastFire orig factor this w =
     (case orig of
        None \<Rightarrow> Inl TypeError
      | Some m \<Rightarrow>
          (case m this w of
             Inl e \<Rightarrow> Inl e
           | Inr (None, w1) \<Rightarrow> Inr (None, w1)
           | Inr (Some r, w1) \<Rightarrow>
               Inr (Some r,
                    w1\<lparr>bullets := (bullets w1)
                          (r := (bullets w1 r)\<lparr>bul_vx := bul_vx (bullets w1 r) * factor,
                                                 bul_vy := bul_vy (bullets w1 r) * factor\<rparr>)\<rparr>)))"

text \<open>
  Lines 13-26; \<open>factor\<close> defaults to 2. Line 15 tests the guard for truthiness, and line
  17 stores in it whatever \<open>prototype.fire\<close> holds.
\<close>

definition increaseBulletSpeed :: "'x tank_class option \<Rightarrow> real option \<Rightarrow> error + 'x tank_class" where
  "increaseBulletSpeed TankClass factor =
     (case TankClass of
        None \<Rightarrow> Inl (Error ''increaseBulletSpeed: invalid TankClass'')
      | Some C \<Rightarrow>
          if orig_fire_fastpatch C \<noteq> None then Inr C
          else (let orig = proto_fire C
                in Inr (C\<lparr>orig_fire_fastpatch := orig,
                          proto_fire :=
                            Some (fastFire orig (case factor of None \<Rightarrow> 2 | Some f \<Rightarrow> f))\<rparr>)))"

text \<open>The environment of \<open>enableBouncingBullets\<close>; the two callbacks are optional.\<close>

record 'x bounce_env =
  be_maze :: ref
  be_wallPx :: "wall \<Rightarrow> real \<times> real \<times> real \<times> real"
  be_segRectIntersects :: "point \<Rightarrow> point \<Rightarrow> real \<Rightarrow> real \<Rightarrow> real \<Rightarrow> real \<Rightarrow> bool"
  be_canvas :: canvas
  be_spawnExplosion :: "(real \<Rightarrow> real \<Rightarrow> 'x world \<Rightarrow> 'x world) option"
  be_playSFX :: "(string \<Rightarrow> 'x world \<Rightarrow> 'x world) option"

text \<open>Lines 63-77: the pixel rectangle of the first wall the segment crosses.\<close>

fun firstHit ::
  "'x bounce_env \<Rightarrow> point \<Rightarrow> point \<Rightarrow> wall list \<Rightarrow> (real \<times> real \<times> real \<times> real) option" where
  "firstHit env p0 p1 [] = None"
| "firstHit env p0 p1 (m # ms) =
     (case be_wallPx env m of
        (x, y, w, h) \<Rightarrow>
          if be_segRectIntersects env p0 p1 x y w h then Some (x, y, w, h)
          else firstHit env p0 p1 ms)"

definition setBullet :: "ref \<Rightarrow> (bullet \<Rightarrow> bullet) \<Rightarrow> 'x world \<Rightarrow> 'x world" where
  "setBullet r f w = w\<lparr>bullets := (bullets w)(r := f (bullets w r))\<rparr>"

definition callOpt :: "('x world \<Rightarrow> 'x world) option \<Rightarrow> 'x world \<Rightarrow> 'x world" where
  "callOpt f w = (case f of None \<Rightarrow> w | Some g \<Rightarrow> g w)"

text \<open>Lines 66-74: the reflection off a wall.\<close>

definition wallBounce ::
  "'x bounce_env \<Rightarrow> ref \<Rightarrow> real \<times> real \<times> real \<times> real \<Rightarrow> 'x world \<Rightarrow> 'x world" where
  "wallBounce env this rect w =
     (case rect of
        (x, y, wd, h) \<Rightarrow>
          (let b = bullets w this;
               cx = clamp (bul_x b) x (x + wd);
               cy = clamp (bul_y b) y (y + h);
               hitVertical = \<bar>cx - bul_x b\<bar> > \<bar>cy - bul_y b\<bar>;
               w1 = (if hitVertical then setBullet this (\<lambda>b. b\<lparr>bul_vx := - bul_vx b\<rparr>) w
                     else setBullet this (\<lambda>b. b\<lparr>bul_vy := - bul_vy b\<rparr>) w);
               w2 = callOpt (map_option (\<lambda>f. f (bul_x (bullets w1 this)) (bul_y (bullets w1 this)))
                              (be_spawnExplosion env)) w1;
               w3 = callOpt (map_option (\<lambda>f. f ''wall'') (be_playSFX env)) w2
           in setBullet this
                (\<lambda>b. b\<lparr>bul_bounces := map_option Suc (bul_bounces b)\<rparr>) w3))"

text \<open>Lines 80-84: the reflection off the arena bounds; also returns \<open>bounced\<close>.\<close>

definition arenaBounce :: "'x bounce_env \<Rightarrow> ref \<Rightarrow> real \<Rightarrow> real \<Rightarrow> 'x world \<Rightarrow> bool \<times> 'x world" where
  "arenaBounce env this nx ny w =
     (let hx = (nx < 0 \<or> nx > clientWidth (be_canvas env));
          w1 = (if hx then setBullet this (\<lambda>b. b\<lparr>bul_vx := - bul_vx b\<rparr>) w else w);
          hy = (ny < 0 \<or> ny > clientHeight (be_canvas env));
          w2 = (if hy then setBullet this (\<lambda>b. b\<lparr>bul_vy := - bul_vy b\<rparr>) w1 else w1);
          bounced = (hx \<or> hy)
      in (bounced,
          if bounced then callOpt (map_option (\<lambda>f. f ''wall'') (be_playSFX env)) w2 else w2))"

text \<open>
  Lines 51-95: the replacement for \<open>Bullet.update\<close>. It never calls the original.
\<close>

definition bounceUpdate :: "'x bounce_env \<Rightarrow> real \<Rightarrow> 'x update_method" where
  "bounceUpdate env maxBounces this dt w0 =
     (if \<not> bul_alive (bullets w0 this) then Inr w0
      else
        (let w1 = (if bul_bounces (bullets w0 this) = None
                   then setBullet this (\<lambda>b. b\<lparr>bul_bounces := Some 0\<rparr>) w0 else w0);
             b = bullets w1 this;
             nx = bul_x b + bul_vx b * dt;
             ny = bul_y b + bul_vy b * dt;
             p0 = \<lparr>pt_x = bul_x b, pt_y = bul_y b\<rparr>;
             p1 = \<lparr>pt_x = nx, pt_y = ny\<rparr>;
             (bounced, w2) =
               (case firstHit env p0 p1 (mazes w1 (be_maze env)) of
                  Some rect \<Rightarrow> (True, wallBounce env this rect w1)
                | None \<Rightarrow> arenaBounce env this nx ny w1);
             b2 = bullets w2 this;
             nx2 = (if bounced then bul_x b2 + bul_vx b2 * dt else nx);
             ny2 = (if bounced then bul_y b2 + bul_vy b2 * dt else ny);
             w3 = setBullet this (\<lambda>b. b\<lparr>bul_x := nx2, bul_y := ny2, bul_life := bul_life b - dt\<rparr>) w2;
             b3 = bullets w3 this
         in if bul_life b3 \<le> 0 \<or> (case bul_bounces b3 of None \<Rightarrow> False | Some n \<Rightarrow> real n \<ge> maxBounces)
            then Inr (setBullet this (\<lambda>b. b\<lparr>bul_alive := False\<rparr>) w3) else Inr w3))"

text \<open>
  Lines 42-96; \<open>maxBounces\<close> defaults to 3. Line 48 tests the guard for truthiness, and
  line 50 stores in it whatever \<open>prototype.update\<close> holds.
\<close>

definition enableBouncingBullets ::
  "'x bullet_class option \<Rightarrow> 'x bounce_env \<Rightarrow> real option \<Rightarrow> error + 'x bullet_class" where
  "enableBouncingBullets BulletClass env maxBounces =
     (case BulletClass of
        None \<Rightarrow> Inl (Error ''enableBouncingBullets: invalid BulletClass'')
      | Some C \<Rightarrow>
          if orig_update_bouncepatch C \<noteq> None then Inr C
          else (let orig = proto_update C
                in Inr (C\<lparr>orig_update_bouncepatch := orig,
                          proto_update :=
                            Some (bounceUpdate env (case maxBounces of None \<Rightarrow> 3 | Some n \<Rightarrow> n))\<rparr>)))"

text \<open>The environment of \<open>enableDeadlyWalls\<close> and its \<open>deadly\<close> argument.\<close>

record 'x deadly_env =
  de_maze :: ref
  de_wallPx :: "wall \<Rightarrow> real \<times> real \<times> real \<times> real"
  de_circleRectCollision :: "real \<Rightarrow> real \<Rightarrow> real \<Rightarrow> real \<Rightarrow> real \<Rightarrow> real \<Rightarrow> real \<Rightarrow> bool"
  de_onTankKilled :: "(ref \<Rightarrow> 'x world \<Rightarrow> 'x world) option"

datatype deadly_arg = Indices "int list" | Predicate "wall \<Rightarrow> nat \<Rightarrow> bool" | Neither

text \<open>Line 118: \<open>if (maze[i]) maze[i].deadly = true\<close>, for each listed index.\<close>

fun markIndices :: "int list \<Rightarrow> wall list \<Rightarrow> wall list" where
  "markIndices [] maze = maze"
| "markIndices (i # is) maze =
     markIndices is
       (if 0 \<le> i \<and> nat i < length maze
        then maze[nat i := (maze ! nat i)\<lparr>wall_deadly := True\<rparr>] else maze)"

text \<open>Line 120: \<open>maze.forEach((m, i) => { if (deadly(m, i)) m.deadly = true; })\<close>.\<close>

definition markPredicate :: "(wall \<Rightarrow> nat \<Rightarrow> bool) \<Rightarrow> wall list \<Rightarrow> wall list" where
  "markPredicate deadly maze =
     map (\<lambda>(m, i). if deadly m i then m\<lparr>wall_deadly := True\<rparr> else m) (zip maze [0..<length maze])"

definition tagDeadly :: "deadly_arg \<Rightarrow> wall list \<Rightarrow> wall list" where
  "tagDeadly deadly maze =
     (case deadly of
        Indices is \<Rightarrow> markIndices is maze
      | Predicate f \<Rightarrow> markPredicate f maze
      | Neither \<Rightarrow> maze)"

text \<open>Lines 128-135: does the tank overlap a deadly wall?\<close>

fun lethalContact :: "'x deadly_env \<Rightarrow> tank \<Rightarrow> wall list \<Rightarrow> bool" where
  "lethalContact env t [] = False"
| "lethalContact env t (m # ms) =
     (if \<not> wall_deadly m then lethalContact env t ms
      else (case de_wallPx env m of
              (x, y, w, h) \<Rightarrow>
                if de_circleRectCollision env (tank_x t) (tank_y t) (tank_radius t) x y w h then True
                else lethalContact env t ms))"

text \<open>
  Lines 126-136: the replacement for \<open>Tank.updateMovement\<close>. \<open>orig.apply\<close> throws a
  TypeError when the saved original is undefined.
\<close>

definition deadlyMove :: "'x move_method option \<Rightarrow> 'x deadly_env \<Rightarrow> 'x move_method" where
  "deadlyMove orig env this dt l r f b w =
     (case orig of
        None \<Rightarrow> Inl TypeError
      | Some m \<Rightarrow>
          (case m this dt l r f b w of
             Inl e \<Rightarrow> Inl e
           | Inr w1 \<Rightarrow>
               if lethalContact env (tanks w1 this) (mazes w1 (de_maze env))
               then Inr (callOpt (map_option (\<lambda>k. k this) (de_onTankKilled env)) w1)
               else Inr w1))"

text \<open>
  Lines 110-137. The walls are tagged before the guard is tested. Line 123 tests the
  guard for truthiness, and line 125 stores in it whatever \<open>prototype.updateMovement\<close>
  holds.
\<close>

definition enableDeadlyWalls ::
  "'x tank_class option \<Rightarrow> 'x deadly_env \<Rightarrow> deadly_arg \<Rightarrow> 'x world \<Rightarrow> error + 'x tank_class \<times> 'x world" where
  "enableDeadlyWalls TankClass env deadly w =
     (case TankClass of
        None \<Rightarrow> Inl (Error ''enableDeadlyWalls: invalid TankClass'')
      | Some C \<Rightarrow>
          (let w1 = w\<lparr>mazes := (mazes w)(de_maze env := tagDeadly deadly (mazes w (de_maze env)))\<rparr>
           in if orig_update_move_deadlypatch C \<noteq> None then Inr (C, w1)
              else (let orig = proto_updateMovement C
                    in Inr (C\<lparr>orig_update_move_deadlypatch := orig,
                               proto_updateMovement := Some (deadlyMove orig env)\<rparr>, w1))))"

subsection \<open>Observations used in the statements\<close>

text \<open>The record \<open>getState\<close> returns for an enemy: the stored one, or a fresh one.\<close>

definition agentOf :: "ref \<Rightarrow> 'x sys \<Rightarrow> agent_state" where
  "agentOf e s = fst (getState e s)"


fun moves :: "call list \<Rightarrow> call list" where
  "moves [] = []"
| "moves (UpdateMovement e dt l r f b # cs) = UpdateMovement e dt l r f b # moves cs"
| "moves (c # cs) = moves cs"

text \<open>
  The receivers of the tank-method calls of a log (\<open>updateMovement\<close> and \<open>fire\<close>), and
  of its \<open>updateMovement\<close> calls alone.
\<close>

fun receivers :: "call list \<Rightarrow> ref list" where
  "receivers [] = []"
| "receivers (UpdateMovement e dt l r f b # cs) = e # receivers cs"
| "receivers (Fire e # cs) = e # receivers cs"
| "receivers (EnsureNav dt # cs) = receivers cs"

fun movers :: "call list \<Rightarrow> ref list" where
  "movers [] = []"
| "movers (UpdateMovement e dt l r f b # cs) = e # movers cs"
| "movers (c # cs) = movers cs"

text \<open>
  Calling a method on an instance: \<open>t.fire()\<close> and \<open>b.update(dt)\<close> look the method up
  in the prototype, and throw a TypeError when it is undefined.
\<close>

definition callFire :: "'x tank_class \<Rightarrow> 'x fire_method" where
  "callFire C this w = (case proto_fire C of None \<Rightarrow> Inl TypeError | Some m \<Rightarrow> m this w)"

definition callUpdate :: "'x bullet_class \<Rightarrow> 'x update_method" where
  "callUpdate B this dt w = (case proto_update B of None \<Rightarrow> Inl TypeError | Some m \<Rightarrow> m this dt w)"

text \<open>The velocity of the bullet \<open>t.fire()\<close> returns, if it returns one.\<close>

definition firedVelocity :: "'x tank_class \<Rightarrow> ref \<Rightarrow> 'x world \<Rightarrow> (real \<times> real) option" where
  "firedVelocity C this w =
     (case callFire C this w of
        Inr (Some b, w1) \<Rightarrow> Some (bul_vx (bullets w1 b), bul_vy (bullets w1 b))
      | _ \<Rightarrow> None)"

text \<open>Whether the bullet is alive after \<open>b.update(dt)\<close>, if the call returns.\<close>

definition aliveAfterUpdate :: "'x bullet_class \<Rightarrow> ref \<Rightarrow> real \<Rightarrow> 'x world \<Rightarrow> bool option" where
  "aliveAfterUpdate B this dt w =
     (case callUpdate B this dt w of
        Inl e \<Rightarrow> None
      | Inr w1 \<Rightarrow> Some (bul_alive (bullets w1 this)))"

text \<open>\<open>increaseBulletSpeed(C, factor); increaseBulletSpeed(C, factor);\<close>\<close>

definition increaseBulletSpeedTwice :: "'x tank_class \<Rightarrow> real option \<Rightarrow> error + 'x tank_class" where
  "increaseBulletSpeedTwice C factor =
     (case increaseBulletSpeed (Some C) factor of
        Inl e \<Rightarrow> Inl e
      | Inr C1 \<Rightarrow> increaseBulletSpeed (Some C1) factor)"

subsection \<open>A concrete scene\<close>

text \<open>
  A small world on which the statements below are evaluated: every tank at the origin
  facing angle 0, collaborators that leave the world as it is, and \<open>Math.random\<close>
  returning one half. The opaque part of the world is the next free reference.
  \<open>envBlind\<close> has no line of sight; \<open>envWall\<close> reports a wall on the left (left
  feeler 0, right feeler 180, forward feeler 30) and a facing error of 3; in \<open>envMove\<close>
  \<open>updateMovement\<close> advances the receiver by \<open>dt\<close> along x when told to go forward.
\<close>

definition tank0 :: tank where
  "tank0 = \<lparr>tank_x = 0, tank_y = 0, tank_angle = 0, tank_turnSpeed = 0, tank_radius = 16\<rparr>"

definition bullet0 :: bullet where
  "bullet0 = \<lparr>bul_x = 0, bul_y = 0, bul_vx = 3, bul_vy = 4, bul_life = 2, bul_alive = True,
               bul_bounces = None\<rparr>"

definition world0 :: "nat world" where
  "world0 = \<lparr>tanks = (\<lambda>r. tank0), bullets = (\<lambda>r. bullet0), mazes = (\<lambda>r. []), ext = 100\<rparr>"

definition env0 :: "nat env" where
  "env0 = \<lparr>canvas = \<lparr>clientWidth = 800, clientHeight = 600\<rparr>, player = 0,
            angleTo = (\<lambda>x1 y1 x2 y2. (x2 - x1) + (y2 - y1)), angDiff = (\<lambda>a b. b - a),
            hasLineOfSight = (\<lambda>w x1 y1 x2 y2. True),
            ensureNav = (\<lambda>dt w. w),
            navWaypoint = (\<lambda>w x y. Some \<lparr>pt_x = 1, pt_y = 1\<rparr>),
            distanceToWall = (\<lambda>w x y a m. m),
            canOccupy = None,
            updateMovement = (\<lambda>e dt l r f b w. w),
            canFire = (\<lambda>e w. True),
            fire = (\<lambda>e w. w),
            random = (\<lambda>n. 1 / 2)\<rparr>"

definition envBlind :: "nat env" where
  "envBlind = env0\<lparr>hasLineOfSight := (\<lambda>w x1 y1 x2 y2. False)\<rparr>"

definition sys0 :: "nat sys" where
  "sys0 = \<lparr>state = Map.empty, world = world0, draws = 0, calls = []\<rparr>"

definition envWall :: "nat env" where
  "envWall = env0\<lparr>angDiff := (\<lambda>a b. 3),
                  distanceToWall := (\<lambda>w x y a m. if a < 0 then 0 else if a > 0 then 180 else 30)\<rparr>"

definition envMove :: "nat env" where
  "envMove = env0\<lparr>updateMovement :=
     (\<lambda>e dt l r f b w.
        if f then w\<lparr>tanks := (tanks w)(e := (tanks w e)\<lparr>tank_x := tank_x (tanks w e) + dt\<rparr>)\<rparr>
        else w)\<rparr>"

text \<open>
  The system after one tick of enemy 2 with step \<open>1/10\<close> in \<open>envMove\<close>, and after one
  tick of enemy 3 that follows it.
\<close>

definition sysMoved2 :: "nat sys" where
  "sysMoved2 =
     \<lparr>state = [2 \<mapsto> \<lparr>hasSight = True, holdFire = 23 / 20, unstick = 0, unstickDir = 0,
                      progress = 0, lastX = 1 / 10, lastY = 0\<rparr>],
      world = world0\<lparr>tanks := (tanks world0)(2 := tank0\<lparr>tank_x := 1 / 10\<rparr>)\<rparr>,
      draws = 1,
      calls = [UpdateMovement 2 (1 / 10) False False True False]\<rparr>"

definition sysMoved3 :: "nat sys" where
  "sysMoved3 =
     \<lparr>state = [2 \<mapsto> \<lparr>hasSight = True, holdFire = 23 / 20, unstick = 0, unstickDir = 0,
                      progress = 0, lastX = 1 / 10, lastY = 0\<rparr>,
               3 \<mapsto> \<lparr>hasSight = True, holdFire = 23 / 20, unstick = 0, unstickDir = 0,
                      progress = 0, lastX = 1 / 10, lastY = 0\<rparr>],
      world = world0\<lparr>tanks := (tanks world0)(2 := tank0\<lparr>tank_x := 1 / 10\<rparr>,
                                               3 := tank0\<lparr>tank_x := 1 / 10\<rparr>)\<rparr>,
      draws = 2,
      calls = [UpdateMovement 2 (1 / 10) False False True False,
               UpdateMovement 3 (1 / 10) False False True False]\<rparr>"


definition fire0 :: "nat fire_method" where
  "fire0 this w = Inr (Some 7, w\<lparr>bullets := (bullets w)(7 := bullet0)\<rparr>)"

definition tankClass0 :: "nat tank_class" where
  "tankClass0 = \<lparr>proto_fire = Some fire0,
                  proto_updateMovement = Some (\<lambda>this dt l r f b w. Inr w),
                  orig_fire_fastpatch = None, orig_update_move_deadlypatch = None\<rparr>"

definition bulletClass0 :: "nat bullet_class" where
  "bulletClass0 = \<lparr>proto_update = Some (\<lambda>this dt w. Inr w), orig_update_bouncepatch = None\<rparr>"

definition tankClassBare :: "nat tank_class" where
  "tankClassBare = \<lparr>proto_fire = None, proto_updateMovement = None,
                     orig_fire_fastpatch = None, orig_update_move_deadlypatch = None\<rparr>"

definition bulletClassBare :: "nat bullet_class" where
  "bulletClassBare = \<lparr>proto_update = None, orig_update_bouncepatch = None\<rparr>"

definition benv0 :: "nat bounce_env" where
  "benv0 = \<lparr>be_maze = 0, be_wallPx = wall_cell,
             be_segRectIntersects = (\<lambda>p0 p1 x y w h. False),
             be_canvas = \<lparr>clientWidth = 800, clientHeight = 600\<rparr>,
             be_spawnExplosion = None, be_playSFX = None\<rparr>"

definition denv0 :: "nat deadly_env" where
  "denv0 = \<lparr>de_maze = 0, de_wallPx = wall_cell,
             de_circleRectCollision = (\<lambda>cx cy cr x y w h. False),
             de_onTankKilled = None\<rparr>"

section \<open>Properties\<close>

subsection \<open>Frame lemmas of the phases\<close>


lemma moves_append: "moves (xs @ ys) = moves xs @ moves ys"
  by (induction xs rule: moves.induct) simp_all

lemma getState_world: "world (snd (getState e s)) = world s"
  by (simp add: getState_def Let_def split: option.splits)

lemma getState_calls: "calls (snd (getState e s)) = calls s"
  by (simp add: getState_def Let_def split: option.splits)

lemma getState_draws: "draws (snd (getState e s)) = draws s"
  by (simp add: getState_def Let_def split: option.splits)

lemma getState_state: "state (snd (getState e s)) = (state s)(e \<mapsto> agentOf e s)"
  by (auto simp add: getState_def agentOf_def Let_def split: option.splits)

lemma steerTarget_world:
  "fst (snd (steerTarget env dt e sight t w)) = (if sight then w else ensureNav env dt w)"
  by (simp add: steerTarget_def Let_def split: option.splits)

lemma steerTarget_calls:
  "snd (snd (steerTarget env dt e sight t w)) = (if sight then [] else [EnsureNav dt])"
  by (simp add: steerTarget_def Let_def split: option.splits)

lemma senseOne_sight: "l_sight (fst (senseOne env dt e s)) = sightOf env (world s) e"
  by (simp add: senseOne_def Let_def split_def getState_world)

lemma senseOne_diff: "l_diff (fst (senseOne env dt e s)) = facingError env (world s) e"
  by (simp add: senseOne_def Let_def split_def getState_world)

lemma senseOne_targetAng: "l_targetAng (fst (senseOne env dt e s)) = targetAng env (world s) e"
  by (simp add: senseOne_def Let_def split_def getState_world)

lemma senseOne_feel:
  "l_leftFeel (fst (senseOne env dt e s)) = leftFeel env (world s) e"
  "l_rightFeel (fst (senseOne env dt e s)) = rightFeel env (world s) e"
  "l_fwdFeel (fst (senseOne env dt e s)) = fwdFeel env (world s) e"
  by (simp_all add: senseOne_def Let_def split_def getState_world)

lemma senseOne_world:
  "world (snd (senseOne env dt e s)) =
     (if sightOf env (world s) e then world s else ensureNav env dt (world s))"
  by (simp add: senseOne_def Let_def split_def getState_world steerTarget_world)

lemma senseOne_calls:
  "calls (snd (senseOne env dt e s)) =
     calls s @ (if sightOf env (world s) e then [] else [EnsureNav dt])"
  by (simp add: senseOne_def Let_def split_def getState_world getState_calls steerTarget_calls)

lemma senseOne_state:
  "state (snd (senseOne env dt e s)) = (state s)(e \<mapsto> l_st (fst (senseOne env dt e s)))"
  by (simp add: senseOne_def Let_def split_def getState_state)

lemma senseOne_draws:
  "draws (snd (senseOne env dt e s)) =
     (if sightOf env (world s) e \<and> \<not> hasSight (agentOf e s) then Suc (draws s) else draws s)"
  by (simp add: senseOne_def Let_def split_def getState_world getState_draws agentOf_def)

lemma stuckDetection_holdFire: "holdFire (stuckDetection dt g m lf rf ff st) = holdFire st"
  by (simp add: stuckDetection_def Let_def)

lemma stuckDetection_hasSight: "hasSight (stuckDetection dt g m lf rf ff st) = hasSight st"
  by (simp add: stuckDetection_def Let_def)

lemma senseOne_holdFire:
  "holdFire (l_st (fst (senseOne env dt e s))) =
     holdFire (decayHoldFire dt (acquireSight (sightOf env (world s) e) (random env (draws s)) (agentOf e s)))"
  by (simp add: senseOne_def Let_def split_def getState_world getState_draws agentOf_def
      stuckDetection_holdFire)

lemma maneuver_holdFire: "holdFire (fst (maneuver env dt e l r f b ff st w)) = holdFire st"
  by (simp add: maneuver_def)

lemma moveOne_keeps:
  "l_sight (fst (moveOne env dt e ls)) = l_sight (fst ls)"
  "l_diff (fst (moveOne env dt e ls)) = l_diff (fst ls)"
  "holdFire (l_st (fst (moveOne env dt e ls))) = holdFire (l_st (fst ls))"
  by (simp_all add: moveOne_def Let_def split_def maneuver_holdFire)

lemma moveOne_state:
  "state (snd (moveOne env dt e ls)) = (state (snd ls))(e \<mapsto> l_st (fst (moveOne env dt e ls)))"
  by (simp add: moveOne_def Let_def split_def)

lemma moveOne_calls:
  "calls (snd (moveOne env dt e ls)) =
     calls (snd ls) @ [snd (snd (maneuver env dt e (l_turnLeft (fst ls)) (l_turnRight (fst ls))
        (l_goForward (fst ls)) (l_goBackward (fst ls)) (l_fwdFeel (fst ls)) (l_st (fst ls)) (world (snd ls))))]"
  by (simp add: moveOne_def Let_def split_def)

lemma fireDecision_state: "state (fireDecision env e ls) = state (snd ls)"
  by (simp add: fireDecision_def Let_def split_def)

lemma fireDecision_draws: "draws (fireDecision env e ls) = draws (snd ls)"
  by (simp add: fireDecision_def Let_def split_def)

lemma fireDecision_calls:
  "calls (fireDecision env e ls) =
     calls (snd ls) @
       (if l_sight (fst ls) \<and> holdFire (l_st (fst ls)) \<le> 0 \<and> canFire env e (world (snd ls))
           \<and> \<bar>l_diff (fst ls)\<bar> < 0.15
        then [Fire e] else [])"
  by (simp add: fireDecision_def Let_def split_def)

lemma updateOne_state:
  "state (updateOne env dt e s) =
     (state s)(e \<mapsto> l_st (fst (moveOne env dt e (senseOne env dt e s))))"
  by (simp add: updateOne_def fireDecision_state moveOne_state senseOne_state)

lemma agentOf_updateOne:
  "agentOf e (updateOne env dt e s) = l_st (fst (moveOne env dt e (senseOne env dt e s)))"
  by (simp add: agentOf_def getState_def updateOne_state)

lemma acquireSight_simps:
  "holdFire (acquireSight sight r st) = (if sight \<and> \<not> hasSight st then 0.9 + r * 0.7 else holdFire st)"
  "hasSight (acquireSight sight r st) = sight"
  "unstick (acquireSight sight r st) = unstick st"
  "unstickDir (acquireSight sight r st) = unstickDir st"
  "progress (acquireSight sight r st) = progress st"
  "lastX (acquireSight sight r st) = lastX st"
  "lastY (acquireSight sight r st) = lastY st"
  by (simp_all add: acquireSight_def Let_def)

lemma decayHoldFire_simps:
  "holdFire (decayHoldFire dt st) = (if holdFire st > 0 then holdFire st - dt else holdFire st)"
  "hasSight (decayHoldFire dt st) = hasSight st"
  "unstick (decayHoldFire dt st) = unstick st"
  "unstickDir (decayHoldFire dt st) = unstickDir st"
  "progress (decayHoldFire dt st) = progress st"
  "lastX (decayHoldFire dt st) = lastX st"
  "lastY (decayHoldFire dt st) = lastY st"
  by (simp_all add: decayHoldFire_def)

lemma maneuver_simps:
  "holdFire (fst (maneuver env dt e l r f b ff st w)) = holdFire st"
  "hasSight (fst (maneuver env dt e l r f b ff st w)) = hasSight st"
  "progress (fst (maneuver env dt e l r f b ff st w)) = progress st"
  "unstickDir (fst (maneuver env dt e l r f b ff st w)) = unstickDir st"
  "unstick (fst (maneuver env dt e l r f b ff st w)) = (if unstick st > 0 then unstick st - dt else unstick st)"
  by (simp_all add: maneuver_def)

lemma moveOne_st:
  "holdFire (l_st (fst (moveOne env dt e ls))) = holdFire (l_st (fst ls))"
  "hasSight (l_st (fst (moveOne env dt e ls))) = hasSight (l_st (fst ls))"
  "progress (l_st (fst (moveOne env dt e ls))) = progress (l_st (fst ls))"
  "unstickDir (l_st (fst (moveOne env dt e ls))) = unstickDir (l_st (fst ls))"
  "unstick (l_st (fst (moveOne env dt e ls))) =
     (if unstick (l_st (fst ls)) > 0 then unstick (l_st (fst ls)) - dt else unstick (l_st (fst ls)))"
  by (simp_all add: moveOne_def Let_def split_def maneuver_simps)

lemma senseOne_hasSight:
  "hasSight (l_st (fst (senseOne env dt e s))) = sightOf env (world s) e"
  by (simp add: senseOne_def Let_def split_def getState_world stuckDetection_hasSight
      decayHoldFire_simps acquireSight_simps)

lemma updateOne_draws:
  "draws (updateOne env dt e s) =
     (if sightOf env (world s) e \<and> \<not> hasSight (agentOf e s) then Suc (draws s) else draws s)"
  by (simp add: updateOne_def fireDecision_draws moveOne_def Let_def split_def senseOne_draws)

lemma senseOne_st:
  "l_st (fst (senseOne env dt e s)) =
     stuckDetection dt (l_goForward (fst (senseOne env dt e s))) (l_moved (fst (senseOne env dt e s)))
       (leftFeel env (world s) e) (rightFeel env (world s) e) (fwdFeel env (world s) e)
       (decayHoldFire dt (acquireSight (sightOf env (world s) e) (random env (draws s)) (agentOf e s)))"
  by (simp add: senseOne_def Let_def split_def getState_world getState_draws agentOf_def)

lemma senseOne_steerTargetAng:
  "l_steerTargetAng (fst (senseOne env dt e s)) =
     fst (steerTarget env dt e (sightOf env (world s) e) (targetAng env (world s) e) (world s))"
  by (simp add: senseOne_def Let_def split_def getState_world)

lemma senseOne_steer:
  "l_steer (fst (senseOne env dt e s)) =
     steerValue (angDiff env (tank_angle (tanks (world (snd (senseOne env dt e s))) e))
                   (l_steerTargetAng (fst (senseOne env dt e s))))
       (leftFeel env (world s) e) (rightFeel env (world s) e) (fwdFeel env (world s) e)"
  by (simp add: senseOne_def Let_def split_def getState_world)

lemma senseOne_flags:
  "l_turnLeft (fst (senseOne env dt e s)) = (l_steer (fst (senseOne env dt e s)) < - 0.06)"
  "l_turnRight (fst (senseOne env dt e s)) = (l_steer (fst (senseOne env dt e s)) > 0.06)"
  "l_goForward (fst (senseOne env dt e s)) = (fwdFeel env (world s) e > 24)"
  "l_goBackward (fst (senseOne env dt e s)) = False"
  by (simp_all add: senseOne_def Let_def split_def getState_world)

lemma senseOne_moved:
  "l_moved (fst (senseOne env dt e s)) =
     hypot (tank_x (tanks (world (snd (senseOne env dt e s))) e) - lastX (agentOf e s))
           (tank_y (tanks (world (snd (senseOne env dt e s))) e) - lastY (agentOf e s))"
  by (simp add: senseOne_def Let_def split_def getState_world agentOf_def
      decayHoldFire_simps acquireSight_simps)

lemma updateOne_moves:
  "moves (calls (updateOne env dt e s)) =
     moves (calls s) @
       [snd (snd (maneuver env dt e
          (l_steer (fst (senseOne env dt e s)) < - 0.06) (l_steer (fst (senseOne env dt e s)) > 0.06)
          (fwdFeel env (world s) e > 24) False (fwdFeel env (world s) e)
          (l_st (fst (senseOne env dt e s))) (world (snd (senseOne env dt e s)))))]"
  by (simp add: updateOne_def fireDecision_calls moveOne_calls senseOne_calls moves_append
      senseOne_flags senseOne_feel maneuver_def)

lemma steerValue_bound: "\<bar>steerValue d lf rf ff\<bar> \<le> 2.2"
proof -
  have b: "- 0.8 \<le> steerBase d \<and> steerBase d \<le> 0.8"
    by (simp add: steerBase_def clamp_def)
  have a: "- 0.7 \<le> avoid lf rf \<and> avoid lf rf \<le> 0.7"
    by (simp add: avoid_def clamp_def)
  have p: "- 0.7 \<le> panic lf rf ff \<and> panic lf rf ff \<le> 0.7"
    by (simp add: panic_def)
  show ?thesis
    unfolding steerValue_def using a b p by linarith
qed

lemma stuckDetection_simps:
  "progress (stuckDetection dt g m lf rf ff st) =
     (if (if g \<and> m < 8 * dt \<and> ff < 50 then progress st + dt else 0) > 0.6 then 0
      else (if g \<and> m < 8 * dt \<and> ff < 50 then progress st + dt else 0))"
  "unstick (stuckDetection dt g m lf rf ff st) =
     (if (if g \<and> m < 8 * dt \<and> ff < 50 then progress st + dt else 0) > 0.6 then 0.5
      else unstick st)"
  "unstickDir (stuckDetection dt g m lf rf ff st) =
     (if (if g \<and> m < 8 * dt \<and> ff < 50 then progress st + dt else 0) > 0.6
      then (if lf < rf then 1 else - 1) else unstickDir st)"
  by (simp_all add: stuckDetection_def Let_def)

subsection \<open>The concrete scene evaluated\<close>

lemma sys0_simps:
  "world sys0 = world0" "draws sys0 = 0" "calls sys0 = []"
  "agentOf 2 sys0 = \<lparr>hasSight = False, holdFire = 0, unstick = 0, unstickDir = 0,
     progress = 0, lastX = 0, lastY = 0\<rparr>"
  by (simp_all add: sys0_def agentOf_def getState_def world0_def tank0_def Let_def)

lemma envWall_simps:
  "sightOf envWall world0 2" "facingError envWall world0 2 = 3"
  "leftFeel envWall world0 2 = 0" "rightFeel envWall world0 2 = 180"
  "fwdFeel envWall world0 2 = 30" "random envWall n = 1 / 2" "angDiff envWall x y = 3"
  "updateMovement envWall r dt l rt f b w = w"
  by (simp_all add: envWall_def env0_def world0_def tank0_def sightOf_def facingError_def
      leftFeel_def rightFeel_def fwdFeel_def)

lemma env0_scene:
  "sightOf env0 world0 2" "facingError env0 world0 2 = 0" "targetAng env0 world0 2 = 0"
  "canFire env0 r w" "random env0 n = 1 / 2"
  "leftFeel env0 world0 2 = 180" "rightFeel env0 world0 2 = 180" "fwdFeel env0 world0 2 = 160"
  by (simp_all add: env0_def world0_def tank0_def sightOf_def facingError_def targetAng_def
      leftFeel_def rightFeel_def fwdFeel_def)

lemma envBlind_scene:
  "\<not> sightOf envBlind world0 2" "targetAng envBlind world0 2 = 0"
  "ensureNav envBlind dt w = w"
  "navWaypoint envBlind w x y = Some \<lparr>pt_x = 1, pt_y = 1\<rparr>"
  "angleTo envBlind x1 y1 x2 y2 = (x2 - x1) + (y2 - y1)"
  by (simp_all add: envBlind_def env0_def world0_def tank0_def sightOf_def targetAng_def)

lemma world0_tank: "tanks world0 r = tank0"
  by (simp add: world0_def)

lemma envWall_sense:
  "world (snd (senseOne envWall dt 2 sys0)) = world0"
  "l_moved (fst (senseOne envWall dt 2 sys0)) = 0"
  "l_goForward (fst (senseOne envWall dt 2 sys0))"
  "l_fwdFeel (fst (senseOne envWall dt 2 sys0)) = 30"
  "l_steer (fst (senseOne envWall dt 2 sys0)) = 11 / 5"
  by (simp_all add: senseOne_world senseOne_moved senseOne_flags senseOne_feel senseOne_steer
      sys0_simps envWall_simps hypot_def world0_tank tank0_def steerValue_def steerBase_def
      avoid_def panic_def clamp_def)

subsection \<open>The fire decision\<close>



subsection \<open>The hold-fire timer\<close>

text \<open>
  C2. When there is line of sight this tick and the stored \<open>hasSight\<close> (the sight of the
  previous tick, false for a new enemy) is false, line 209 sets the hold-fire timer to
  \<open>0.9 + r * 0.7\<close> for the draw \<open>r\<close>, a value in \<open>[0.9, 1.6)\<close> when \<open>r\<close> is in \<open>[0, 1)\<close>;
  line 211 then decrements it by \<open>dt\<close> in the same tick, and one draw is consumed.
  On any other tick no draw is made and the timer is not reset: it is decremented by
  \<open>dt\<close> if positive and left alone otherwise. The stored \<open>hasSight\<close> becomes this
  tick's sight.
\<close>

theorem holdFire_edge_trigger:
  assumes "0 \<le> random env (draws s) \<and> random env (draws s) < 1"
  shows
    "(sightOf env (world s) e \<and> \<not> hasSight (agentOf e s) \<longrightarrow>
        holdFire (acquireSight (sightOf env (world s) e) (random env (draws s)) (agentOf e s))
          = 0.9 + random env (draws s) * 0.7
        \<and> 0.9 \<le> 0.9 + random env (draws s) * 0.7
        \<and> 0.9 + random env (draws s) * 0.7 < 1.6
        \<and> holdFire (agentOf e (updateOne env dt e s)) = 0.9 + random env (draws s) * 0.7 - dt
        \<and> draws (updateOne env dt e s) = Suc (draws s))
     \<and> (\<not> (sightOf env (world s) e \<and> \<not> hasSight (agentOf e s)) \<longrightarrow>
        holdFire (acquireSight (sightOf env (world s) e) (random env (draws s)) (agentOf e s))
          = holdFire (agentOf e s)
        \<and> holdFire (agentOf e (updateOne env dt e s))
          = (if holdFire (agentOf e s) > 0 then holdFire (agentOf e s) - dt else holdFire (agentOf e s))
        \<and> draws (updateOne env dt e s) = draws s)
     \<and> hasSight (agentOf e (updateOne env dt e s)) = sightOf env (world s) e"
  using assms unfolding agentOf_updateOne updateOne_draws
  by (auto simp add: moveOne_st senseOne_holdFire senseOne_hasSight acquireSight_simps decayHoldFire_simps)

theorem holdFire_edge_trigger_witness:
  "holdFire (agentOf 2 (updateOne env0 (1 / 10) 2 sys0)) = 23 / 20
   \<and> draws (updateOne env0 (1 / 10) 2 sys0) = 1
   \<and> holdFire (agentOf 2 (updateOne envBlind (1 / 10) 2 sys0)) = 0
   \<and> draws (updateOne envBlind (1 / 10) 2 sys0) = 0"
proof -
  have a: "agentOf 2 sys0 = \<lparr>hasSight = False, holdFire = 0, unstick = 0, unstickDir = 0,
             progress = 0, lastX = 0, lastY = 0\<rparr>"
    by (simp add: agentOf_def getState_def Let_def sys0_def world0_def tank0_def)
  have d: "draws sys0 = 0"
    by (simp add: sys0_def)
  have s1: "sightOf env0 (world sys0) 2" and s2: "\<not> sightOf envBlind (world sys0) 2"
    by (simp_all add: sightOf_def env0_def envBlind_def)
  have r: "random env0 n = 1 / 2" "random envBlind n = 1 / 2" for n
    by (simp_all add: env0_def envBlind_def sys0_def)
  show ?thesis
    using holdFire_edge_trigger [where env = env0 and s = sys0 and e = 2 and dt = "1 / 10"]
      holdFire_edge_trigger [where env = envBlind and s = sys0 and e = 2 and dt = "1 / 10"]
    by (simp add: a s1 s2 r d)
qed

subsection \<open>Steering\<close>

text \<open>
  C3. The steering scalar of a tick is the clamped angle difference to the steering
  target (within \<open>[-0.8, 0.8]\<close>) plus the clamped avoidance term (within \<open>[-0.7, 0.7]\<close>)
  plus the panic term (\<open>0.7\<close>, \<open>-0.7\<close> or \<open>0\<close>), and the sum is not clamped again: its
  absolute value is at most 2.2 and reaches 2.2. On a tick without the unstick maneuver
  (\<open>st.unstick\<close> not positive at line 240) the turn flags of the movement call are taken
  from that sum.
\<close>

theorem steer_composition:
  "l_steer (fst (senseOne env dt e s)) =
     clamp (angDiff env (tank_angle (tanks (world (snd (senseOne env dt e s))) e))
              (l_steerTargetAng (fst (senseOne env dt e s)))) (- 0.8) 0.8
     + clamp ((rightFeel env (world s) e - leftFeel env (world s) e) * 0.005) (- 0.7) 0.7
     + (if fwdFeel env (world s) e < 40
        then (if leftFeel env (world s) e < rightFeel env (world s) e then 0.7 else - 0.7)
        else 0)
   \<and> \<bar>l_steer (fst (senseOne env dt e s))\<bar> \<le> 2.2
   \<and> steerValue 1 0 180 0 = 2.2
   \<and> (\<not> unstick (l_st (fst (senseOne env dt e s))) > 0 \<longrightarrow>
        moves (calls (updateOne env dt e s)) =
          moves (calls s) @
            [UpdateMovement e dt (l_steer (fst (senseOne env dt e s)) < - 0.06)
               (l_steer (fst (senseOne env dt e s)) > 0.06) (fwdFeel env (world s) e > 24) False])"
proof -
  have "steerValue 1 0 180 0 = 2.2"
    by (simp add: steerValue_def steerBase_def avoid_def panic_def clamp_def)
  moreover have "\<bar>l_steer (fst (senseOne env dt e s))\<bar> \<le> 2.2"
    by (simp only: senseOne_steer steerValue_bound)
  moreover have "l_steer (fst (senseOne env dt e s)) =
     clamp (angDiff env (tank_angle (tanks (world (snd (senseOne env dt e s))) e))
              (l_steerTargetAng (fst (senseOne env dt e s)))) (- 0.8) 0.8
     + clamp ((rightFeel env (world s) e - leftFeel env (world s) e) * 0.005) (- 0.7) 0.7
     + (if fwdFeel env (world s) e < 40
        then (if leftFeel env (world s) e < rightFeel env (world s) e then 0.7 else - 0.7)
        else 0)"
    by (simp add: senseOne_steer steerValue_def steerBase_def avoid_def panic_def)
  moreover have "\<not> unstick (l_st (fst (senseOne env dt e s))) > 0 \<longrightarrow>
        moves (calls (updateOne env dt e s)) =
          moves (calls s) @
            [UpdateMovement e dt (l_steer (fst (senseOne env dt e s)) < - 0.06)
               (l_steer (fst (senseOne env dt e s)) > 0.06) (fwdFeel env (world s) e > 24) False]"
    by (simp add: updateOne_moves maneuver_def)
  ultimately show ?thesis by blast
qed

theorem steer_composition_witness:
  "l_steer (fst (senseOne envWall (1 / 10) 2 sys0)) = 11 / 5
   \<and> moves (calls (updateOne envWall (1 / 10) 2 sys0)) =
       [UpdateMovement 2 (1 / 10) False True True False]"
proof -
  have w: "world (snd (senseOne envWall (1 / 10) 2 sys0)) = world0"
    by (simp add: senseOne_world sys0_simps envWall_simps)
  have m: "l_moved (fst (senseOne envWall (1 / 10) 2 sys0)) = 0"
    by (simp add: senseOne_moved w sys0_simps hypot_def world0_def tank0_def)
  have u: "unstick (l_st (fst (senseOne envWall (1 / 10) 2 sys0))) = 0"
    by (subst senseOne_st)
      (simp add: stuckDetection_simps decayHoldFire_simps acquireSight_simps sys0_simps
        envWall_simps)
  show ?thesis
    using steer_composition [where env = envWall and s = sys0 and e = 2 and dt = "1 / 10"]
    by (simp add: u sys0_simps envWall_simps clamp_def)
qed

text \<open>
  C8. With line of sight the steering target is the bearing to the player. Without it
  \<open>ensureNav(dt)\<close> runs first; if \<open>navWaypoint\<close> then returns a point the target is the
  bearing to that point, and if it returns nothing the target falls back to the bearing
  to the player. The steering scalar is computed from the angle difference to that
  target.
\<close>

theorem steer_target:
  "l_steerTargetAng (fst (senseOne env dt e s)) =
     (if sightOf env (world s) e then targetAng env (world s) e
      else (case navWaypoint env (ensureNav env dt (world s))
                  (tank_x (tanks (ensureNav env dt (world s)) e))
                  (tank_y (tanks (ensureNav env dt (world s)) e)) of
              Some wp \<Rightarrow> angleTo env (tank_x (tanks (ensureNav env dt (world s)) e))
                           (tank_y (tanks (ensureNav env dt (world s)) e)) (pt_x wp) (pt_y wp)
            | None \<Rightarrow> targetAng env (world s) e))
   \<and> targetAng env (world s) e =
       angleTo env (tank_x (tanks (world s) e)) (tank_y (tanks (world s) e))
         (tank_x (tanks (world s) (player env))) (tank_y (tanks (world s) (player env)))
   \<and> l_steer (fst (senseOne env dt e s)) =
       steerValue (angDiff env (tank_angle (tanks (world (snd (senseOne env dt e s))) e))
                     (l_steerTargetAng (fst (senseOne env dt e s))))
         (leftFeel env (world s) e) (rightFeel env (world s) e) (fwdFeel env (world s) e)"
  by (simp add: senseOne_steerTargetAng senseOne_steer steerTarget_def targetAng_def Let_def
      split: option.splits)

theorem steer_target_witness:
  "l_steerTargetAng (fst (senseOne envBlind (1 / 10) 2 sys0)) = 2
   \<and> targetAng envBlind world0 2 = 0
   \<and> l_steerTargetAng (fst (senseOne env0 (1 / 10) 2 sys0)) = 0"
  using steer_target [where env = envBlind and s = sys0 and e = 2 and dt = "1 / 10"]
    steer_target [where env = env0 and s = sys0 and e = 2 and dt = "1 / 10"]
  by (simp add: sys0_simps env0_scene envBlind_scene world0_tank tank0_def)

subsection \<open>Stuck detection and the unstick maneuver\<close>

text \<open>
  C4. The progress timer grows by \<open>dt\<close> exactly when \<open>goForward\<close> (forward feeler above
  24) holds, the displacement since the last tick is below \<open>8 * dt\<close> and the forward
  feeler is below 50; otherwise it is reset to 0. When the value so obtained exceeds 0.6,
  \<open>st.unstick\<close> is set to 0.5, \<open>st.unstickDir\<close> to 1 if the left feeler is below the right
  one and to -1 otherwise, and the progress timer is reset to 0; otherwise both are kept.
  These are the values line 240 reads; the progress timer and the direction are not
  touched again in the tick, and \<open>st.unstick\<close> is then decremented by \<open>dt\<close> if positive.
\<close>

theorem stuck_detection:
  "(let L = fst (senseOne env dt e s);
        a = agentOf e s;
        p = (if l_goForward L \<and> l_moved L < 8 * dt \<and> l_fwdFeel L < 50
             then progress a + dt else 0)
    in l_goForward L = (fwdFeel env (world s) e > 24)
       \<and> l_fwdFeel L = fwdFeel env (world s) e
       \<and> l_moved L = hypot (tank_x (tanks (world (snd (senseOne env dt e s))) e) - lastX a)
                            (tank_y (tanks (world (snd (senseOne env dt e s))) e) - lastY a)
       \<and> progress (l_st L) = (if p > 0.6 then 0 else p)
       \<and> unstick (l_st L) = (if p > 0.6 then 0.5 else unstick a)
       \<and> unstickDir (l_st L) =
           (if p > 0.6
            then (if leftFeel env (world s) e < rightFeel env (world s) e then 1 else - 1)
            else unstickDir a)
       \<and> progress (agentOf e (updateOne env dt e s)) = progress (l_st L)
       \<and> unstickDir (agentOf e (updateOne env dt e s)) = unstickDir (l_st L)
       \<and> unstick (agentOf e (updateOne env dt e s)) =
           (if unstick (l_st L) > 0 then unstick (l_st L) - dt else unstick (l_st L)))"
proof -
  let ?L = "fst (senseOne env dt e s)"
  have st: "progress (l_st ?L) =
        (if (if l_goForward ?L \<and> l_moved ?L < 8 * dt \<and> l_fwdFeel ?L < 50
             then progress (agentOf e s) + dt else 0) > 0.6 then 0
         else (if l_goForward ?L \<and> l_moved ?L < 8 * dt \<and> l_fwdFeel ?L < 50
               then progress (agentOf e s) + dt else 0))"
    "unstick (l_st ?L) =
        (if (if l_goForward ?L \<and> l_moved ?L < 8 * dt \<and> l_fwdFeel ?L < 50
             then progress (agentOf e s) + dt else 0) > 0.6 then 0.5
         else unstick (agentOf e s))"
    "unstickDir (l_st ?L) =
        (if (if l_goForward ?L \<and> l_moved ?L < 8 * dt \<and> l_fwdFeel ?L < 50
             then progress (agentOf e s) + dt else 0) > 0.6
         then (if leftFeel env (world s) e < rightFeel env (world s) e then 1 else - 1)
         else unstickDir (agentOf e s))"
    by (subst senseOne_st,
        simp add: stuckDetection_simps decayHoldFire_simps acquireSight_simps senseOne_feel)+
  show ?thesis
    unfolding agentOf_updateOne Let_def moveOne_st
    using st by (simp add: senseOne_flags senseOne_feel senseOne_moved)
qed

theorem stuck_detection_witness:
  "progress (l_st (fst (senseOne envWall 2 2 sys0))) = 0
   \<and> unstick (l_st (fst (senseOne envWall 2 2 sys0))) = 1 / 2
   \<and> unstickDir (l_st (fst (senseOne envWall 2 2 sys0))) = 1
   \<and> unstick (agentOf 2 (updateOne envWall 2 2 sys0)) = - (3 / 2)
   \<and> progress (l_st (fst (senseOne envWall (1 / 10) 2 sys0))) = 1 / 10
   \<and> unstick (l_st (fst (senseOne envWall (1 / 10) 2 sys0))) = 0"
  using stuck_detection [where env = envWall and s = sys0 and e = 2 and dt = 2]
    stuck_detection [where env = envWall and s = sys0 and e = 2 and dt = "1 / 10"]
  by (simp add: Let_def envWall_sense sys0_simps envWall_simps)



subsection \<open>Lower bounds of the timers\<close>

text \<open>
  Against C5 as stated: in the concrete scene with a step of 2 seconds, one tick of a
  new enemy leaves the hold-fire timer at \<open>-3/4\<close> and the unstick timer at \<open>-3/2\<close>.
  The timers are decremented while positive and never floored at zero.
\<close>

theorem timers_negative:
  "holdFire (agentOf 2 (updateOne envWall 2 2 sys0)) = - (3 / 4)
   \<and> unstick (agentOf 2 (updateOne envWall 2 2 sys0)) = - (3 / 2)
   \<and> \<not> (0 \<le> holdFire (agentOf 2 (updateOne envWall 2 2 sys0))
          \<and> 0 \<le> unstick (agentOf 2 (updateOne envWall 2 2 sys0))
          \<and> 0 \<le> progress (agentOf 2 (updateOne envWall 2 2 sys0)))"
proof -
  have w: "world (snd (senseOne envWall 2 2 sys0)) = world0"
    by (simp add: senseOne_world sys0_simps envWall_simps)
  have m: "l_moved (fst (senseOne envWall 2 2 sys0)) = 0"
    by (simp add: senseOne_moved w sys0_simps hypot_def world0_def tank0_def)
  have u: "unstick (l_st (fst (senseOne envWall 2 2 sys0))) = 1 / 2"
    by (subst senseOne_st)
      (simp add: stuckDetection_simps decayHoldFire_simps acquireSight_simps sys0_simps
        envWall_simps senseOne_flags m)
  show ?thesis
    unfolding agentOf_updateOne moveOne_st
    by (simp add: u senseOne_holdFire decayHoldFire_simps acquireSight_simps sys0_simps
        envWall_simps)
qed

text \<open>
  C5. What does hold after every tick: if the step \<open>dt\<close> is positive and at most \<open>c\<close>,
  the random draw is not negative, and before the tick the hold-fire and unstick timers
  are above \<open>-c\<close> and the progress timer is not negative (as for a new enemy, whose
  timers are 0), then after the tick the hold-fire and unstick timers are again above
  \<open>-c\<close> and the progress timer lies in \<open>[0, 0.6]\<close>.
\<close>

theorem timers_lower_bound:
  assumes "0 < dt" and "dt \<le> c" and "0 \<le> random env (draws s)"
    and "- c < holdFire (agentOf e s) \<and> - c < unstick (agentOf e s) \<and> 0 \<le> progress (agentOf e s)"
  shows "- c < holdFire (agentOf e (updateOne env dt e s))
         \<and> - c < unstick (agentOf e (updateOne env dt e s))
         \<and> 0 \<le> progress (agentOf e (updateOne env dt e s))
         \<and> progress (agentOf e (updateOne env dt e s)) \<le> 0.6"
proof -
  let ?L = "fst (senseOne env dt e s)"
  have h: "- c < holdFire (l_st ?L)"
    using assms by (simp add: senseOne_holdFire decayHoldFire_simps acquireSight_simps)
  have u: "- c < unstick (l_st ?L) \<and> 0 \<le> progress (l_st ?L) \<and> progress (l_st ?L) \<le> 0.6"
    using assms
    by (subst (1 2 3) senseOne_st)
      (simp add: stuckDetection_simps decayHoldFire_simps acquireSight_simps)
  show ?thesis
    unfolding agentOf_updateOne moveOne_st using h u assms by auto
qed

theorem timers_lower_bound_witness:
  "- 2 < holdFire (agentOf 2 (updateOne envWall 2 2 sys0))
   \<and> - 2 < unstick (agentOf 2 (updateOne envWall 2 2 sys0))
   \<and> 0 \<le> progress (agentOf 2 (updateOne envWall 2 2 sys0))
   \<and> progress (agentOf 2 (updateOne envWall 2 2 sys0)) \<le> 0.6"
  using timers_lower_bound [where env = envWall and s = sys0 and e = 2 and dt = 2 and c = 2]
  by (simp add: sys0_simps envWall_simps)

subsection \<open>The batch update\<close>

lemma receivers_append: "receivers (xs @ ys) = receivers xs @ receivers ys"
  by (induction xs rule: receivers.induct) simp_all

lemma movers_append: "movers (xs @ ys) = movers xs @ movers ys"
  by (induction xs rule: movers.induct) simp_all

lemma updateOne_calls:
  "calls (updateOne env dt e s) =
     calls s @ (if sightOf env (world s) e then [] else [EnsureNav dt])
       @ [snd (snd (maneuver env dt e
          (l_steer (fst (senseOne env dt e s)) < - 0.06) (l_steer (fst (senseOne env dt e s)) > 0.06)
          (fwdFeel env (world s) e > 24) False (fwdFeel env (world s) e)
          (l_st (fst (senseOne env dt e s))) (world (snd (senseOne env dt e s)))))]
       @ (if sightOf env (world s) e
             \<and> holdFire (l_st (fst (senseOne env dt e s))) \<le> 0
             \<and> canFire env e (world (snd (moveOne env dt e (senseOne env dt e s))))
             \<and> \<bar>facingError env (world s) e\<bar> < 0.15
          then [Fire e] else [])"
  by (simp add: updateOne_def fireDecision_calls moveOne_calls moveOne_keeps senseOne_calls
      senseOne_flags senseOne_feel senseOne_sight senseOne_diff)

lemma updateOne_movers: "movers (calls (updateOne env dt e s)) = movers (calls s) @ [e]"
  by (simp add: updateOne_calls movers_append maneuver_def)

lemma updateOne_receivers:
  "set (receivers (calls (updateOne env dt e s))) = set (receivers (calls s)) \<union> {e}"
  by (simp add: updateOne_calls receivers_append maneuver_def)

lemma updateOne_state_other: "k \<noteq> e \<Longrightarrow> state (updateOne env dt e s) k = state s k"
  by (simp add: updateOne_state)

lemma moveOne_world:
  "world (snd (moveOne env dt e ls)) =
     fst (snd (maneuver env dt e (l_turnLeft (fst ls)) (l_turnRight (fst ls))
        (l_goForward (fst ls)) (l_goBackward (fst ls)) (l_fwdFeel (fst ls)) (l_st (fst ls)) (world (snd ls))))"
  by (simp add: moveOne_def Let_def split_def)

lemma fireDecision_world:
  "world (fireDecision env e ls) = world (snd ls) \<or>
   world (fireDecision env e ls) = fire env e (world (snd ls))"
  by (simp add: fireDecision_def Let_def split_def)

lemma maneuver_world:
  "\<exists>l r f b. fst (snd (maneuver env dt e t1 t2 gf gb ff st w)) = updateMovement env e dt l r f b w"
  by (auto simp add: maneuver_def)

lemma updateOne_world_inv:
  assumes nav: "\<And>w. P w \<Longrightarrow> P (ensureNav env dt w)"
    and mv: "\<And>l r f b w. P w \<Longrightarrow> P (updateMovement env e dt l r f b w)"
    and fr: "\<And>w. P w \<Longrightarrow> P (fire env e w)"
    and p: "P (world s)"
  shows "P (world (updateOne env dt e s))"
proof -
  have 1: "P (world (snd (senseOne env dt e s)))"
    using nav p by (simp add: senseOne_world)
  obtain l r f b where
    "world (snd (moveOne env dt e (senseOne env dt e s))) =
       updateMovement env e dt l r f b (world (snd (senseOne env dt e s)))"
    using maneuver_world unfolding moveOne_world by blast
  then have 2: "P (world (snd (moveOne env dt e (senseOne env dt e s))))"
    using mv 1 by simp
  show ?thesis
    unfolding updateOne_def
    using fireDecision_world [of env e "moveOne env dt e (senseOne env dt e s)"] 2 fr
    by auto
qed

lemma senseOne_cong:
  assumes "m e = state s e"
  shows "fst (senseOne env dt e (s\<lparr>state := m\<rparr>)) = fst (senseOne env dt e s)"
    and "snd (senseOne env dt e (s\<lparr>state := m\<rparr>)) =
           (snd (senseOne env dt e s))\<lparr>state := m(e \<mapsto> l_st (fst (senseOne env dt e s)))\<rparr>"
  using assms
  by (auto simp add: senseOne_def Let_def split_def getState_def split: option.splits)

lemma moveOne_cong:
  "moveOne env dt e (l, s\<lparr>state := m\<rparr>) =
     (fst (moveOne env dt e (l, s)),
      (snd (moveOne env dt e (l, s)))\<lparr>state := m(e \<mapsto> l_st (fst (moveOne env dt e (l, s))))\<rparr>)"
  by (simp add: moveOne_def Let_def split_def)

lemma fireDecision_cong:
  "fireDecision env e (l, s\<lparr>state := m\<rparr>) = (fireDecision env e (l, s))\<lparr>state := m\<rparr>"
  by (simp add: fireDecision_def Let_def)

lemma updateOne_cong:
  assumes "m e = state s e"
  shows "updateOne env dt e (s\<lparr>state := m\<rparr>) =
           (updateOne env dt e s)\<lparr>state := m(e := state (updateOne env dt e s) e)\<rparr>"
proof -
  obtain l s1 where s1: "senseOne env dt e s = (l, s1)"
    by (cases "senseOne env dt e s")
  have a: "senseOne env dt e (s\<lparr>state := m\<rparr>) = (l, s1\<lparr>state := m(e \<mapsto> l_st l)\<rparr>)"
    using assms s1 by (simp add: prod_eq_iff senseOne_cong)
  obtain l2 s2 where s2: "moveOne env dt e (l, s1) = (l2, s2)"
    by (cases "moveOne env dt e (l, s1)")
  have b: "moveOne env dt e (l, s1\<lparr>state := m(e \<mapsto> l_st l)\<rparr>) = (l2, s2\<lparr>state := m(e \<mapsto> l_st l2)\<rparr>)"
    by (simp add: moveOne_cong s2)
  have c: "state (fireDecision env e (l2, s2)) e = Some (l_st l2)"
    using moveOne_state [of env dt e "(l, s1)"] by (simp add: fireDecision_state s2)
  show ?thesis
    by (simp add: updateOne_def s1 a s2 b fireDecision_cong c)
qed

lemma updateAllAI_movers:
  "movers (calls (updateAllAI env dt es s)) = movers (calls s) @ es"
  by (induction es arbitrary: s) (simp_all add: updateOne_movers)

lemma updateAllAI_receivers:
  "set (receivers (calls (updateAllAI env dt es s))) = set (receivers (calls s)) \<union> set es"
  by (induction es arbitrary: s) (simp_all add: updateOne_receivers)

lemma updateAllAI_state_other:
  "k \<notin> set es \<Longrightarrow> state (updateAllAI env dt es s) k = state s k"
  by (induction es arbitrary: s) (simp_all add: updateOne_state_other)

lemma updateAllAI_world_inv:
  assumes nav: "\<And>w. P w \<Longrightarrow> P (ensureNav env dt w)"
    and mv: "\<And>e l r f b w. e \<in> set es \<Longrightarrow> P w \<Longrightarrow> P (updateMovement env e dt l r f b w)"
    and fr: "\<And>e w. e \<in> set es \<Longrightarrow> P w \<Longrightarrow> P (fire env e w)"
    and p: "P (world s)"
  shows "P (world (updateAllAI env dt es s))"
  using mv fr p
proof (induction es arbitrary: s)
  case Nil
  then show ?case by simp
next
  case (Cons e es)
  have "P (world (updateOne env dt e s))"
    by (rule updateOne_world_inv [where P = P]) (auto intro: nav Cons.prems)
  then show ?case
    using Cons.IH [of "updateOne env dt e s"] Cons.prems by simp
qed

lemma env0_simps:
  "ensureNav env0 dt w = w" "updateMovement env0 r dt l rt f b w = w" "fire env0 r w = w"
  by (simp_all add: env0_def)

lemma sys0_state: "state sys0 = Map.empty"
  by (simp add: sys0_def)

lemma updateAllAI_foldl:
  "updateAllAI env dt es s = foldl (\<lambda>s e. updateOne env dt e s) s es"
  by (induction es arbitrary: s) simp_all

lemma updateAllAI_append:
  "updateAllAI env dt (xs @ ys) s = updateAllAI env dt ys (updateAllAI env dt xs s)"
  by (induction xs arbitrary: s) simp_all

lemma updateAllAI_entry:
  assumes "es = xs @ e # ys" and "e \<notin> set xs" and "e \<notin> set ys"
  shows "state (updateAllAI env dt es s) e = state (updateOne env dt e (updateAllAI env dt xs s)) e"
    and "state (updateAllAI env dt xs s) e = state s e"
    and "state (updateAllAI env dt es s) e =
           Some (l_st (fst (moveOne env dt e (senseOne env dt e (updateAllAI env dt xs s)))))"
  using assms
  by (simp_all add: updateAllAI_append updateAllAI_state_other updateOne_state)

lemmas tick_defs = senseOne_def moveOne_def fireDecision_def updateOne_def getState_def
  targetAng_def facingError_def sightOf_def acquireSight_def decayHoldFire_def
  leftFeel_def rightFeel_def fwdFeel_def steerTarget_def steerBase_def avoid_def panic_def
  steerValue_def hypot_def stuckDetection_def maneuver_def clamp_def Let_def

lemma envMove_tick2:
  "updateOne envMove (1 / 10) 2 sys0 = sysMoved2"
  by (simp add: tick_defs envMove_def env0_def sys0_def world0_def tank0_def sysMoved2_def)

lemma envMove_tick3:
  "updateOne envMove (1 / 10) 3 sysMoved2 = sysMoved3"
  by (simp add: tick_defs envMove_def env0_def world0_def tank0_def sysMoved2_def sysMoved3_def)

lemma envMove_simps:
  "ensureNav envMove dt w = w" "fire envMove r w = w"
  "tanks (updateMovement envMove 2 dt l rt f b w) 0 = tanks w 0"
  "tanks (updateMovement envMove 3 dt l rt f b w) 0 = tanks w 0"
  by (simp_all add: envMove_def env0_def)

text \<open>
  C9. One call of \<open>updateAllAI\<close> is \<open>updateOne\<close> applied once to each element of the
  list, in list order, and so issues one \<open>updateMovement\<close> per element; every tank method
  it calls has a managed enemy as receiver; it leaves the \<open>state\<close> entry of every
  reference outside the list as it was. The entry of a managed enemy that occurs once in
  the list is still the one it had before the batch when its turn comes, and after the
  batch it is the record its own single \<open>updateOne\<close> left. The batch changes the world
  only through \<open>ensureNav\<close> and the managed enemies' own \<open>updateMovement\<close> and \<open>fire\<close>:
  whatever those preserve (such as the player's tank) is preserved by the batch. One
  enemy's update reads and writes only its own \<open>state\<close> entry: replacing the other
  entries changes nothing but those entries.
\<close>

theorem updateAll_frame:
  assumes "\<forall>w. P w \<longrightarrow> P (ensureNav env dt w)"
    and "\<forall>e\<in>set es. \<forall>l r f b w. P w \<longrightarrow> P (updateMovement env e dt l r f b w)"
    and "\<forall>e\<in>set es. \<forall>w. P w \<longrightarrow> P (fire env e w)"
    and "P (world s)"
  shows "updateAllAI env dt es s = foldl (\<lambda>s e. updateOne env dt e s) s es
    \<and> movers (calls (updateAllAI env dt es s)) = movers (calls s) @ es
    \<and> set (receivers (calls (updateAllAI env dt es s))) = set (receivers (calls s)) \<union> set es
    \<and> (\<forall>k. k \<notin> set es \<longrightarrow> state (updateAllAI env dt es s) k = state s k)
    \<and> (\<forall>xs e ys. es = xs @ e # ys \<and> e \<notin> set xs \<and> e \<notin> set ys \<longrightarrow>
          state (updateAllAI env dt xs s) e = state s e
          \<and> state (updateAllAI env dt es s) e =
              state (updateOne env dt e (updateAllAI env dt xs s)) e
          \<and> state (updateAllAI env dt es s) e =
              Some (l_st (fst (moveOne env dt e (senseOne env dt e (updateAllAI env dt xs s))))))
    \<and> P (world (updateAllAI env dt es s))
    \<and> (\<forall>e m. m e = state s e \<longrightarrow>
          updateOne env dt e (s\<lparr>state := m\<rparr>) =
            (updateOne env dt e s)\<lparr>state := m(e := state (updateOne env dt e s) e)\<rparr>)"
proof -
  have f6: "P (world (updateAllAI env dt es s))"
  proof (rule updateAllAI_world_inv [where P = P])
    show "P (ensureNav env dt w)" if "P w" for w
      using assms(1) that by blast
    show "P (updateMovement env e dt l r f b w)" if "e \<in> set es" "P w" for e l r f b w
      using assms(2) that by blast
    show "P (fire env e w)" if "e \<in> set es" "P w" for e w
      using assms(3) that by blast
    show "P (world s)"
      by (rule assms(4))
  qed
  have f5: "\<forall>xs e ys. es = xs @ e # ys \<and> e \<notin> set xs \<and> e \<notin> set ys \<longrightarrow>
          state (updateAllAI env dt xs s) e = state s e
          \<and> state (updateAllAI env dt es s) e =
              state (updateOne env dt e (updateAllAI env dt xs s)) e
          \<and> state (updateAllAI env dt es s) e =
              Some (l_st (fst (moveOne env dt e (senseOne env dt e (updateAllAI env dt xs s)))))"
  proof (intro allI impI)
    fix xs e ys
    assume a: "es = xs @ e # ys \<and> e \<notin> set xs \<and> e \<notin> set ys"
    then have 1: "es = xs @ e # ys" and 2: "e \<notin> set xs" and 3: "e \<notin> set ys"
      by simp_all
    show "state (updateAllAI env dt xs s) e = state s e
          \<and> state (updateAllAI env dt es s) e =
              state (updateOne env dt e (updateAllAI env dt xs s)) e
          \<and> state (updateAllAI env dt es s) e =
              Some (l_st (fst (moveOne env dt e (senseOne env dt e (updateAllAI env dt xs s)))))"
      using updateAllAI_entry(1) [OF 1 2 3] updateAllAI_entry(2) [OF 1 2 3]
        updateAllAI_entry(3) [OF 1 2 3]
      by (iprover intro: conjI)
  qed
  have f4: "\<forall>k. k \<notin> set es \<longrightarrow> state (updateAllAI env dt es s) k = state s k"
    by (simp add: updateAllAI_state_other)
  have f7: "\<forall>e m. m e = state s e \<longrightarrow>
          updateOne env dt e (s\<lparr>state := m\<rparr>) =
            (updateOne env dt e s)\<lparr>state := m(e := state (updateOne env dt e s) e)\<rparr>"
    using updateOne_cong by blast
  show ?thesis
    using updateAllAI_foldl [of env dt es s] updateAllAI_movers [of env dt es s]
      updateAllAI_receivers [of env dt es s] f4 f5 f6 f7
    by (iprover intro: conjI)
qed

theorem updateAll_frame_witness:
  "updateAllAI envMove (1 / 10) [2, 3] sys0 = sysMoved3
   \<and> movers (calls sysMoved3) = [2, 3]
   \<and> state sysMoved3 5 = None
   \<and> tanks (world sysMoved3) 0 = tank0
   \<and> tank_x (tanks (world sysMoved3) 2) = 1 / 10
   \<and> tank_x (tanks (world sysMoved3) 3) = 1 / 10
   \<and> map_option lastX (state sysMoved3 3) = Some (1 / 10)"
proof -
  have b: "updateAllAI envMove (1 / 10) [2, 3] sys0 = sysMoved3"
    by (simp add: envMove_tick2 envMove_tick3)
  have h1: "\<forall>w. tanks w 0 = tank0 \<longrightarrow> tanks (ensureNav envMove (1 / 10) w) 0 = tank0"
    by (simp add: envMove_simps)
  have h2: "\<forall>e\<in>set [2, 3]. \<forall>l r f b w. tanks w 0 = tank0 \<longrightarrow>
              tanks (updateMovement envMove e (1 / 10) l r f b w) 0 = tank0"
    by (simp add: envMove_simps)
  have h3: "\<forall>e\<in>set [2, 3]. \<forall>w. tanks w 0 = tank0 \<longrightarrow> tanks (fire envMove e w) 0 = tank0"
    by (simp add: envMove_simps)
  have h4: "tanks (world sys0) 0 = tank0"
    by (simp add: sys0_def world0_def)
  have "movers (calls (updateAllAI envMove (1 / 10) [2, 3] sys0)) = movers (calls sys0) @ [2, 3]
      \<and> tanks (world (updateAllAI envMove (1 / 10) [2, 3] sys0)) 0 = tank0"
    using updateAll_frame [where env = envMove and dt = "1 / 10" and es = "[2, 3]" and s = sys0
        and P = "\<lambda>w. tanks w 0 = tank0", OF h1 h2 h3 h4]
    by (iprover elim: conjE intro: conjI)
  then have "movers (calls sysMoved3) = [2, 3] \<and> tanks (world sysMoved3) 0 = tank0"
    unfolding b by (simp add: sys0_def)
  then show ?thesis
    using b by (simp add: sysMoved3_def world0_def tank0_def)
qed

subsection \<open>Construction\<close>




text \<open>With a constructor and \<open>count = Infinity\<close> the loop never returns.\<close>

lemma spawnLoop_some:
  assumes "spawnLoop env T colors count i si es w = Some r"
  shows "count = PosInfinity \<longrightarrow> T = None"
  by (rule spawnLoop.raw_induct
        [where P = "\<lambda>env T colors count i si es w r. count = PosInfinity \<longrightarrow> T = None", OF _ assms])
    (force split: if_splits option.splits simp add: lessCount_def)

lemma spawnLoop_diverges: "spawnLoop env (Some new) colors PosInfinity i si es w = None"
proof (cases "spawnLoop env (Some new) colors PosInfinity i si es w")
  case (Some r)
  then show ?thesis
    using spawnLoop_some [OF Some] by simp
qed simp

lemma spawn_diverges: "spawnMoreEnemies PosInfinity (Some new) env color w = None"
  by (simp add: spawnMoreEnemies_def spawnLoop_diverges)







subsection \<open>The patch installers and their guards\<close>

lemma increaseBulletSpeed_guard:
  "proto_fire C \<noteq> None \<Longrightarrow>
     \<exists>C1. increaseBulletSpeed (Some C) f = Inr C1 \<and> orig_fire_fastpatch C1 \<noteq> None
       \<and> proto_fire C1 \<noteq> None \<and> increaseBulletSpeed (Some C1) g = Inr C1"
  by (simp add: increaseBulletSpeed_def Let_def)

lemma enableBouncingBullets_guard:
  "proto_update B \<noteq> None \<Longrightarrow>
     \<exists>B1. enableBouncingBullets (Some B) env n = Inr B1 \<and> orig_update_bouncepatch B1 \<noteq> None
       \<and> proto_update B1 \<noteq> None \<and> enableBouncingBullets (Some B1) env' n' = Inr B1"
  by (simp add: enableBouncingBullets_def Let_def)

lemma enableDeadlyWalls_guard:
  "proto_updateMovement C \<noteq> None \<Longrightarrow>
     \<exists>C1 w1. enableDeadlyWalls (Some C) env d w = Inr (C1, w1)
       \<and> orig_update_move_deadlypatch C1 \<noteq> None \<and> proto_updateMovement C1 \<noteq> None
       \<and> (\<exists>w2. enableDeadlyWalls (Some C1) env' d' w' = Inr (C1, w2))"
  by (simp add: enableDeadlyWalls_def Let_def)

lemma firedVelocity_fastFire:
  "firedVelocity (C\<lparr>proto_fire := Some (fastFire (proto_fire C) k)\<rparr>) this w =
     map_option (\<lambda>(vx, vy). (vx * k, vy * k)) (firedVelocity C this w)"
  by (simp add: firedVelocity_def callFire_def fastFire_def
      split: prod.splits option.splits sum.splits)

lemma firedVelocity_guard:
  "firedVelocity (C\<lparr>orig_fire_fastpatch := g\<rparr>) this w = firedVelocity C this w"
  by (simp add: firedVelocity_def callFire_def)

lemma increaseBulletSpeedTwice_unpatched:
  "proto_fire C \<noteq> None \<Longrightarrow> orig_fire_fastpatch C = None \<Longrightarrow>
     increaseBulletSpeedTwice C (Some k) =
       Inr (C\<lparr>orig_fire_fastpatch := proto_fire C, proto_fire := Some (fastFire (proto_fire C) k)\<rparr>)"
  by (auto simp add: increaseBulletSpeedTwice_def increaseBulletSpeed_def Let_def)

lemma world0_simps:
  "tanks world0 r = tank0" "bullets world0 r = bullet0" "mazes world0 r = []"
  by (simp_all add: world0_def)

lemma bounce_world0:
  "\<exists>w1. bounceUpdate benv0 m 7 (1 / 10) world0 = Inr w1 \<and> bul_alive (bullets w1 7) = (0 < m)"
  by (auto simp add: bounceUpdate_def Let_def setBullet_def arenaBounce_def benv0_def
      world0_simps bullet0_def)

lemma aliveAfter_bounce:
  "proto_update B = Some (bounceUpdate benv0 m) \<Longrightarrow>
     aliveAfterUpdate B 7 (1 / 10) world0 = Some (0 < m)"
  using bounce_world0 [of m] by (auto simp add: aliveAfterUpdate_def callUpdate_def)

text \<open>
  Against C10 as stated: on a Bullet class that defines no \<open>update\<close> the guard stays
  undefined after the first \<open>enableBouncingBullets\<close>, and a second call with
  \<open>maxBounces = 0\<close> replaces the patched method: a fresh bullet survives an update of the
  first patch and dies in the same update of the second. Likewise on a Tank class that
  defines no \<open>fire\<close>, the second \<open>increaseBulletSpeed\<close> does not return early: it
  changes the class, and sets the guard only then.
\<close>

theorem patch_not_idempotent:
  "(\<exists>B1 B2. enableBouncingBullets (Some bulletClassBare) benv0 (Some 3) = Inr B1
       \<and> enableBouncingBullets (Some B1) benv0 (Some 0) = Inr B2
       \<and> aliveAfterUpdate B1 7 (1 / 10) world0 = Some True
       \<and> aliveAfterUpdate B2 7 (1 / 10) world0 = Some False
       \<and> proto_update B2 \<noteq> proto_update B1)
   \<and> (\<exists>C1 C2. increaseBulletSpeed (Some tankClassBare) (Some 2) = Inr C1
       \<and> orig_fire_fastpatch C1 = None
       \<and> increaseBulletSpeed (Some C1) (Some 2) = Inr C2
       \<and> orig_fire_fastpatch C2 \<noteq> None
       \<and> C2 \<noteq> C1)"
proof -
  define B1 where "B1 = bulletClassBare\<lparr>proto_update := Some (bounceUpdate benv0 3)\<rparr>"
  define B2 where "B2 = B1\<lparr>orig_update_bouncepatch := Some (bounceUpdate benv0 3),
                           proto_update := Some (bounceUpdate benv0 0)\<rparr>"
  have 1: "enableBouncingBullets (Some bulletClassBare) benv0 (Some 3) = Inr B1"
    by (simp add: enableBouncingBullets_def B1_def bulletClassBare_def Let_def)
  have 2: "enableBouncingBullets (Some B1) benv0 (Some 0) = Inr B2"
    by (simp add: enableBouncingBullets_def B1_def B2_def bulletClassBare_def Let_def)
  have 3: "aliveAfterUpdate B1 7 (1 / 10) world0 = Some True"
    using aliveAfter_bounce [of B1 3] by (simp add: B1_def)
  have 4: "aliveAfterUpdate B2 7 (1 / 10) world0 = Some False"
    using aliveAfter_bounce [of B2 0] by (simp add: B2_def)
  have 5: "proto_update B2 \<noteq> proto_update B1"
  proof
    assume "proto_update B2 = proto_update B1"
    then have "aliveAfterUpdate B2 7 (1 / 10) world0 = aliveAfterUpdate B1 7 (1 / 10) world0"
      by (simp add: aliveAfterUpdate_def callUpdate_def)
    then show False
      using 3 4 by simp
  qed
  define C1 where "C1 = tankClassBare\<lparr>proto_fire := Some (fastFire None 2)\<rparr>"
  define C2 where "C2 = C1\<lparr>orig_fire_fastpatch := Some (fastFire None 2),
                           proto_fire := Some (fastFire (Some (fastFire None 2)) 2)\<rparr>"
  have 6: "increaseBulletSpeed (Some tankClassBare) (Some 2) = Inr C1"
    by (simp add: increaseBulletSpeed_def C1_def tankClassBare_def Let_def)
  have 7: "orig_fire_fastpatch C1 = None"
    by (simp add: C1_def tankClassBare_def)
  have 8: "increaseBulletSpeed (Some C1) (Some 2) = Inr C2"
    by (simp add: increaseBulletSpeed_def C1_def C2_def tankClassBare_def Let_def)
  have 9: "orig_fire_fastpatch C2 \<noteq> None"
    by (simp add: C2_def)
  have 10: "C2 \<noteq> C1"
    using 7 9 by auto
  show ?thesis
    using 1 2 3 4 5 6 7 8 9 10 by blast
qed

text \<open>
  C10. For a class whose prototype defines the method being patched (\<open>fire\<close> for
  \<open>increaseBulletSpeed\<close>, \<open>update\<close> for \<open>enableBouncingBullets\<close>, \<open>updateMovement\<close> for
  \<open>enableDeadlyWalls\<close>) each installer succeeds and leaves its guard property set; any
  later call with that class, whatever the other arguments, returns the class as it is,
  so the patched method is unchanged (\<open>enableDeadlyWalls\<close> still tags walls first). In
  particular two calls of \<open>increaseBulletSpeed\<close> with factor \<open>k\<close> on such a class, not
  yet patched, install the wrapper once: the fired bullet's velocity is the original one
  times \<open>k\<close>, not times \<open>k\<close> squared.
\<close>

theorem patch_idempotent:
  "(proto_fire C \<noteq> None \<longrightarrow>
      (\<exists>C1. increaseBulletSpeed (Some C) f = Inr C1 \<and> orig_fire_fastpatch C1 \<noteq> None
         \<and> proto_fire C1 \<noteq> None \<and> increaseBulletSpeed (Some C1) g = Inr C1))
   \<and> (proto_update B \<noteq> None \<longrightarrow>
      (\<exists>B1. enableBouncingBullets (Some B) benv n = Inr B1 \<and> orig_update_bouncepatch B1 \<noteq> None
         \<and> proto_update B1 \<noteq> None \<and> enableBouncingBullets (Some B1) benv' n' = Inr B1))
   \<and> (proto_updateMovement C \<noteq> None \<longrightarrow>
      (\<exists>C1 w1. enableDeadlyWalls (Some C) denv d w = Inr (C1, w1)
         \<and> orig_update_move_deadlypatch C1 \<noteq> None \<and> proto_updateMovement C1 \<noteq> None
         \<and> (\<exists>w2. enableDeadlyWalls (Some C1) denv' d' w' = Inr (C1, w2))))
   \<and> (proto_fire C \<noteq> None \<and> orig_fire_fastpatch C = None \<longrightarrow>
        (\<exists>C2. increaseBulletSpeedTwice C (Some k) = Inr C2
           \<and> proto_fire C2 = Some (fastFire (proto_fire C) k)
           \<and> (\<forall>this w0. firedVelocity C2 this w0 =
                 map_option (\<lambda>(vx, vy). (vx * k, vy * k)) (firedVelocity C this w0))))"
proof -
  have "\<exists>C2. increaseBulletSpeedTwice C (Some k) = Inr C2
           \<and> proto_fire C2 = Some (fastFire (proto_fire C) k)
           \<and> (\<forall>this w0. firedVelocity C2 this w0 =
                 map_option (\<lambda>(vx, vy). (vx * k, vy * k)) (firedVelocity C this w0))"
    if "proto_fire C \<noteq> None" "orig_fire_fastpatch C = None"
  proof -
    have "firedVelocity (C\<lparr>orig_fire_fastpatch := proto_fire C,
              proto_fire := Some (fastFire (proto_fire C) k)\<rparr>) this w0 =
            map_option (\<lambda>(vx, vy). (vx * k, vy * k)) (firedVelocity C this w0)" for this w0
      using firedVelocity_fastFire [of "C\<lparr>orig_fire_fastpatch := proto_fire C\<rparr>" k this w0]
      by (simp add: firedVelocity_guard)
    then show ?thesis
      by (simp add: increaseBulletSpeedTwice_unpatched [OF that])
  qed
  then show ?thesis
    using increaseBulletSpeed_guard [of C f g] enableBouncingBullets_guard [of B benv n benv' n']
      enableDeadlyWalls_guard [of C denv d w denv' d' w']
    by blast
qed

theorem patch_idempotent_witness:
  "(\<exists>C1. increaseBulletSpeed (Some tankClass0) (Some 2) = Inr C1
       \<and> increaseBulletSpeed (Some C1) (Some 5) = Inr C1)
   \<and> (\<exists>B1. enableBouncingBullets (Some bulletClass0) benv0 (Some 3) = Inr B1
       \<and> enableBouncingBullets (Some B1) benv0 (Some 0) = Inr B1)
   \<and> (\<exists>C1 w1 w2. enableDeadlyWalls (Some tankClass0) denv0 Neither world0 = Inr (C1, w1)
       \<and> enableDeadlyWalls (Some C1) denv0 (Indices [0]) world0 = Inr (C1, w2))
   \<and> firedVelocity tankClass0 2 world0 = Some (3, 4)
   \<and> (\<exists>C2. increaseBulletSpeedTwice tankClass0 (Some 2) = Inr C2
         \<and> firedVelocity C2 2 world0 = Some (6, 8))"
proof -
  have v: "firedVelocity tankClass0 2 world0 = Some (3, 4)"
    by (simp add: firedVelocity_def callFire_def tankClass0_def fire0_def bullet0_def)
  have u: "proto_fire tankClass0 \<noteq> None" "orig_fire_fastpatch tankClass0 = None"
    "proto_updateMovement tankClass0 \<noteq> None" "proto_update bulletClass0 \<noteq> None"
    by (simp_all add: tankClass0_def bulletClass0_def)
  note t = patch_idempotent [where C = tankClass0 and B = bulletClass0 and k = 2
      and f = "Some 2" and g = "Some 5" and benv = benv0 and n = "Some 3" and benv' = benv0
      and n' = "Some 0" and denv = denv0 and d = Neither and w = world0 and denv' = denv0
      and d' = "Indices [0]" and w' = world0]
  obtain C2 where c: "increaseBulletSpeedTwice tankClass0 (Some 2) = Inr C2"
    and f: "\<And>this w0. firedVelocity C2 this w0 =
              map_option (\<lambda>(vx, vy). (vx * 2, vy * 2)) (firedVelocity tankClass0 this w0)"
    using t u by blast
  have "firedVelocity C2 2 world0 = Some (6, 8)"
    by (simp add: f v)
  then show ?thesis
    using c v t u by blast
qed

end
